theory Spec2Isabelle
  imports Complex_Main "HOL-Library.Word" "HOL-Library.Log_Nat"
begin

text \<open>
  A model of the two request handlers of the XLF translator, \<open>processTranslation\<close>
  (\<open>api/process-xlf.js\<close>) and \<open>generateTranslationContext\<close>
  (\<open>api/generate-context.js\<close>), with the functions they call: the text preprocessor, the
  fallback synthesizer, the pattern analysis and the domain detection. Exceptions are
  values of a sum type; the remote model and the API key are parameters. Of the logging
  only the exceptions that its arguments can throw are kept; the clock is left out.
\<close>

section \<open>JavaScript strings\<close>

text \<open>
  A JavaScript string is a sequence of UTF-16 code units. String literals of the source
  that are plain ASCII are written with \<open>ascii\<close>; the three accented letters of the
  keyword lists (U+00E9, U+00ED, U+00F3, precomposed in the source file) are given by their
  code units.
\<close>

type_synonym jschar = "16 word"
type_synonym jsstring = "jschar list"

definition ascii :: "string \<Rightarrow> jsstring" where
  "ascii s = map of_char s"

text \<open>
  The class \<open>\s\<close> of a regular expression and the characters removed by
  \<open>String.prototype.trim\<close> are the same set: WhiteSpace and LineTerminator of ECMAScript
  (TAB, LF, VT, FF, CR, SP, NBSP, the Space_Separator characters, LS, PS and U+FEFF).
\<close>

definition isWhiteSpace :: "jschar \<Rightarrow> bool" where
  "isWhiteSpace c \<longleftrightarrow>
     c = 0x09 \<or> c = 0x0A \<or> c = 0x0B \<or> c = 0x0C \<or> c = 0x0D \<or> c = 0x20 \<or> c = 0xA0 \<or>
     c = 0x1680 \<or> (0x2000 \<le> c \<and> c \<le> 0x200A) \<or> c = 0x2028 \<or> c = 0x2029 \<or>
     c = 0x202F \<or> c = 0x205F \<or> c = 0x3000 \<or> c = 0xFEFF"

text \<open>\<open>s.replace(/\s+/g, ' ')\<close>: every maximal run of white space becomes one space.\<close>

function replaceWhitespaceRuns :: "jsstring \<Rightarrow> jsstring" where
  "replaceWhitespaceRuns [] = []"
| "replaceWhitespaceRuns (c # cs) =
     (if isWhiteSpace c then 0x20 # replaceWhitespaceRuns (dropWhile isWhiteSpace cs)
      else c # replaceWhitespaceRuns cs)"
  by pat_completeness auto
termination
  by (relation "measure length") (auto simp: length_dropWhile_le less_Suc_eq_le)

text \<open>\<open>s.trim()\<close>.\<close>

definition trim :: "jsstring \<Rightarrow> jsstring" where
  "trim s = rev (dropWhile isWhiteSpace (rev (dropWhile isWhiteSpace s)))"

text \<open>
  \<open>s.toLowerCase()\<close>. The source lower-cases a text only to search it for words of
  Basic Latin and Latin-1 letters. The model follows the Unicode case mapping on the
  code units up to U+00FF and on the five characters beyond whose lower case has a code
  unit up to U+00FF: U+0130, which becomes \<open>i\<close> and U+0307, U+0178, U+1E9E, U+212A (the
  Kelvin sign, which becomes \<open>k\<close>) and U+212B. Every other code unit above U+00FF is left
  as it is, where the runtime gives code units above U+00FF again: such a search does
  not tell the two apart.
\<close>

definition lowerUnits :: "jschar \<Rightarrow> jsstring" where
  "lowerUnits c =
     (if (0x41 \<le> c \<and> c \<le> 0x5A) \<or> (0xC0 \<le> c \<and> c \<le> 0xD6) \<or> (0xD8 \<le> c \<and> c \<le> 0xDE)
      then [c + 0x20]
      else if c = 0x0130 then [0x69, 0x0307]
      else if c = 0x0178 then [0xFF]
      else if c = 0x1E9E then [0xDF]
      else if c = 0x212A then [0x6B]
      else if c = 0x212B then [0xE5]
      else [c])"

definition toLowerCase :: "jsstring \<Rightarrow> jsstring" where
  "toLowerCase s = concat (map lowerUnits s)"

text \<open>
  The upper case of one code unit up to U+00FF, which the regular expressions use to
  compare letters without regard to case: the upper case of U+00DF is the two units
  \<open>SS\<close>, and the upper cases of U+00B5 and U+00FF lie outside Latin-1.
\<close>

definition upperUnits :: "jschar \<Rightarrow> jsstring" where
  "upperUnits c =
     (if (0x61 \<le> c \<and> c \<le> 0x7A) \<or> (0xE0 \<le> c \<and> c \<le> 0xF6) \<or> (0xF8 \<le> c \<and> c \<le> 0xFE)
      then [c - 0x20]
      else if c = 0xDF then [0x53, 0x53]
      else if c = 0xB5 then [0x039C]
      else if c = 0xFF then [0x0178]
      else [c])"

text \<open>
  \<open>s.toUpperCase()\<close>, whose result the fallback synthesizer returns to the caller: the
  code points of the string, a surrogate pair being one code point and a lone surrogate
  standing for itself, each replaced by its upper case, and the code units of the
  result. The upper case of a code point is that of the Unicode Character Database
  (version 14.0), including the unconditional mappings to more than one code point of
  \<open>SpecialCasing.txt\<close>; upper-casing depends on no context. \<open>upperRanges\<close> lists runs of
  code points from \<open>first\<close> to \<open>final\<close> in steps of \<open>step\<close>, the upper case of \<open>first\<close>
  being \<open>target\<close> and the distance to the upper case being the same in the whole run.
\<close>

fun codePoints :: "jsstring \<Rightarrow> int list" where
  "codePoints (h # l # s) =
     (if 0xD800 \<le> h \<and> h \<le> 0xDBFF \<and> 0xDC00 \<le> l \<and> l \<le> 0xDFFF
      then (0x10000 + (uint h - 0xD800) * 0x400 + (uint l - 0xDC00)) # codePoints s
      else uint h # codePoints (l # s))"
| "codePoints [c] = [uint c]"
| "codePoints [] = []"

definition codeUnits :: "int \<Rightarrow> jsstring" where
  "codeUnits cp =
     (if cp < 0x10000 then [word_of_int cp]
      else [word_of_int (0xD800 + (cp - 0x10000) div 0x400), word_of_int (0xDC00 + (cp - 0x10000) mod 0x400)])"

definition upperRanges :: "(int \<times> int \<times> int \<times> int) list" where
  "upperRanges =
     [(0x0061, 0x007A, 1, 0x0041), (0x00B5, 0x00B5, 1, 0x039C), (0x00E0, 0x00F6, 1, 0x00C0),
      (0x00F8, 0x00FE, 1, 0x00D8), (0x00FF, 0x00FF, 1, 0x0178), (0x0101, 0x012F, 2, 0x0100),
      (0x0131, 0x0131, 1, 0x0049), (0x0133, 0x0137, 2, 0x0132), (0x013A, 0x0148, 2, 0x0139),
      (0x014B, 0x0177, 2, 0x014A), (0x017A, 0x017E, 2, 0x0179), (0x017F, 0x017F, 1, 0x0053),
      (0x0180, 0x0180, 1, 0x0243), (0x0183, 0x0185, 2, 0x0182), (0x0188, 0x0188, 1, 0x0187),
      (0x018C, 0x018C, 1, 0x018B), (0x0192, 0x0192, 1, 0x0191), (0x0195, 0x0195, 1, 0x01F6),
      (0x0199, 0x0199, 1, 0x0198), (0x019A, 0x019A, 1, 0x023D), (0x019E, 0x019E, 1, 0x0220),
      (0x01A1, 0x01A5, 2, 0x01A0), (0x01A8, 0x01A8, 1, 0x01A7), (0x01AD, 0x01AD, 1, 0x01AC),
      (0x01B0, 0x01B0, 1, 0x01AF), (0x01B4, 0x01B6, 2, 0x01B3), (0x01B9, 0x01B9, 1, 0x01B8),
      (0x01BD, 0x01BD, 1, 0x01BC), (0x01BF, 0x01BF, 1, 0x01F7), (0x01C5, 0x01C5, 1, 0x01C4),
      (0x01C6, 0x01C6, 1, 0x01C4), (0x01C8, 0x01C8, 1, 0x01C7), (0x01C9, 0x01C9, 1, 0x01C7),
      (0x01CB, 0x01CB, 1, 0x01CA), (0x01CC, 0x01CC, 1, 0x01CA), (0x01CE, 0x01DC, 2, 0x01CD),
      (0x01DD, 0x01DD, 1, 0x018E), (0x01DF, 0x01EF, 2, 0x01DE), (0x01F2, 0x01F2, 1, 0x01F1),
      (0x01F3, 0x01F3, 1, 0x01F1), (0x01F5, 0x01F5, 1, 0x01F4), (0x01F9, 0x021F, 2, 0x01F8),
      (0x0223, 0x0233, 2, 0x0222), (0x023C, 0x023C, 1, 0x023B), (0x023F, 0x0240, 1, 0x2C7E),
      (0x0242, 0x0242, 1, 0x0241), (0x0247, 0x024F, 2, 0x0246), (0x0250, 0x0250, 1, 0x2C6F),
      (0x0251, 0x0251, 1, 0x2C6D), (0x0252, 0x0252, 1, 0x2C70), (0x0253, 0x0253, 1, 0x0181),
      (0x0254, 0x0254, 1, 0x0186), (0x0256, 0x0257, 1, 0x0189), (0x0259, 0x0259, 1, 0x018F),
      (0x025B, 0x025B, 1, 0x0190), (0x025C, 0x025C, 1, 0xA7AB), (0x0260, 0x0260, 1, 0x0193),
      (0x0261, 0x0261, 1, 0xA7AC), (0x0263, 0x0263, 1, 0x0194), (0x0265, 0x0265, 1, 0xA78D),
      (0x0266, 0x0266, 1, 0xA7AA), (0x0268, 0x0268, 1, 0x0197), (0x0269, 0x0269, 1, 0x0196),
      (0x026A, 0x026A, 1, 0xA7AE), (0x026B, 0x026B, 1, 0x2C62), (0x026C, 0x026C, 1, 0xA7AD),
      (0x026F, 0x026F, 1, 0x019C), (0x0271, 0x0271, 1, 0x2C6E), (0x0272, 0x0272, 1, 0x019D),
      (0x0275, 0x0275, 1, 0x019F), (0x027D, 0x027D, 1, 0x2C64), (0x0280, 0x0280, 1, 0x01A6),
      (0x0282, 0x0282, 1, 0xA7C5), (0x0283, 0x0283, 1, 0x01A9), (0x0287, 0x0287, 1, 0xA7B1),
      (0x0288, 0x0288, 1, 0x01AE), (0x0289, 0x0289, 1, 0x0244), (0x028A, 0x028B, 1, 0x01B1),
      (0x028C, 0x028C, 1, 0x0245), (0x0292, 0x0292, 1, 0x01B7), (0x029D, 0x029D, 1, 0xA7B2),
      (0x029E, 0x029E, 1, 0xA7B0), (0x0345, 0x0345, 1, 0x0399), (0x0371, 0x0373, 2, 0x0370),
      (0x0377, 0x0377, 1, 0x0376), (0x037B, 0x037D, 1, 0x03FD), (0x03AC, 0x03AC, 1, 0x0386),
      (0x03AD, 0x03AF, 1, 0x0388), (0x03B1, 0x03C1, 1, 0x0391), (0x03C2, 0x03C2, 1, 0x03A3),
      (0x03C3, 0x03CB, 1, 0x03A3), (0x03CC, 0x03CC, 1, 0x038C), (0x03CD, 0x03CE, 1, 0x038E),
      (0x03D0, 0x03D0, 1, 0x0392), (0x03D1, 0x03D1, 1, 0x0398), (0x03D5, 0x03D5, 1, 0x03A6),
      (0x03D6, 0x03D6, 1, 0x03A0), (0x03D7, 0x03D7, 1, 0x03CF), (0x03D9, 0x03EF, 2, 0x03D8),
      (0x03F0, 0x03F0, 1, 0x039A), (0x03F1, 0x03F1, 1, 0x03A1), (0x03F2, 0x03F2, 1, 0x03F9),
      (0x03F3, 0x03F3, 1, 0x037F), (0x03F5, 0x03F5, 1, 0x0395), (0x03F8, 0x03F8, 1, 0x03F7),
      (0x03FB, 0x03FB, 1, 0x03FA), (0x0430, 0x044F, 1, 0x0410), (0x0450, 0x045F, 1, 0x0400),
      (0x0461, 0x0481, 2, 0x0460), (0x048B, 0x04BF, 2, 0x048A), (0x04C2, 0x04CE, 2, 0x04C1),
      (0x04CF, 0x04CF, 1, 0x04C0), (0x04D1, 0x052F, 2, 0x04D0), (0x0561, 0x0586, 1, 0x0531),
      (0x10D0, 0x10FA, 1, 0x1C90), (0x10FD, 0x10FF, 1, 0x1CBD), (0x13F8, 0x13FD, 1, 0x13F0),
      (0x1C80, 0x1C80, 1, 0x0412), (0x1C81, 0x1C81, 1, 0x0414), (0x1C82, 0x1C82, 1, 0x041E),
      (0x1C83, 0x1C84, 1, 0x0421), (0x1C85, 0x1C85, 1, 0x0422), (0x1C86, 0x1C86, 1, 0x042A),
      (0x1C87, 0x1C87, 1, 0x0462), (0x1C88, 0x1C88, 1, 0xA64A), (0x1D79, 0x1D79, 1, 0xA77D),
      (0x1D7D, 0x1D7D, 1, 0x2C63), (0x1D8E, 0x1D8E, 1, 0xA7C6), (0x1E01, 0x1E95, 2, 0x1E00),
      (0x1E9B, 0x1E9B, 1, 0x1E60), (0x1EA1, 0x1EFF, 2, 0x1EA0), (0x1F00, 0x1F07, 1, 0x1F08),
      (0x1F10, 0x1F15, 1, 0x1F18), (0x1F20, 0x1F27, 1, 0x1F28), (0x1F30, 0x1F37, 1, 0x1F38),
      (0x1F40, 0x1F45, 1, 0x1F48), (0x1F51, 0x1F57, 2, 0x1F59), (0x1F60, 0x1F67, 1, 0x1F68),
      (0x1F70, 0x1F71, 1, 0x1FBA), (0x1F72, 0x1F75, 1, 0x1FC8), (0x1F76, 0x1F77, 1, 0x1FDA),
      (0x1F78, 0x1F79, 1, 0x1FF8), (0x1F7A, 0x1F7B, 1, 0x1FEA), (0x1F7C, 0x1F7D, 1, 0x1FFA),
      (0x1FB0, 0x1FB1, 1, 0x1FB8), (0x1FBE, 0x1FBE, 1, 0x0399), (0x1FD0, 0x1FD1, 1, 0x1FD8),
      (0x1FE0, 0x1FE1, 1, 0x1FE8), (0x1FE5, 0x1FE5, 1, 0x1FEC), (0x214E, 0x214E, 1, 0x2132),
      (0x2170, 0x217F, 1, 0x2160), (0x2184, 0x2184, 1, 0x2183), (0x24D0, 0x24E9, 1, 0x24B6),
      (0x2C30, 0x2C5F, 1, 0x2C00), (0x2C61, 0x2C61, 1, 0x2C60), (0x2C65, 0x2C65, 1, 0x023A),
      (0x2C66, 0x2C66, 1, 0x023E), (0x2C68, 0x2C6C, 2, 0x2C67), (0x2C73, 0x2C73, 1, 0x2C72),
      (0x2C76, 0x2C76, 1, 0x2C75), (0x2C81, 0x2CE3, 2, 0x2C80), (0x2CEC, 0x2CEE, 2, 0x2CEB),
      (0x2CF3, 0x2CF3, 1, 0x2CF2), (0x2D00, 0x2D25, 1, 0x10A0), (0x2D27, 0x2D27, 1, 0x10C7),
      (0x2D2D, 0x2D2D, 1, 0x10CD), (0xA641, 0xA66D, 2, 0xA640), (0xA681, 0xA69B, 2, 0xA680),
      (0xA723, 0xA72F, 2, 0xA722), (0xA733, 0xA76F, 2, 0xA732), (0xA77A, 0xA77C, 2, 0xA779),
      (0xA77F, 0xA787, 2, 0xA77E), (0xA78C, 0xA78C, 1, 0xA78B), (0xA791, 0xA793, 2, 0xA790),
      (0xA794, 0xA794, 1, 0xA7C4), (0xA797, 0xA7A9, 2, 0xA796), (0xA7B5, 0xA7C3, 2, 0xA7B4),
      (0xA7C8, 0xA7CA, 2, 0xA7C7), (0xA7D1, 0xA7D1, 1, 0xA7D0), (0xA7D7, 0xA7D9, 2, 0xA7D6),
      (0xA7F6, 0xA7F6, 1, 0xA7F5), (0xAB53, 0xAB53, 1, 0xA7B3), (0xAB70, 0xABBF, 1, 0x13A0),
      (0xFF41, 0xFF5A, 1, 0xFF21), (0x10428, 0x1044F, 1, 0x10400),
      (0x104D8, 0x104FB, 1, 0x104B0), (0x10597, 0x105A1, 1, 0x10570),
      (0x105A3, 0x105B1, 1, 0x1057C), (0x105B3, 0x105B9, 1, 0x1058C),
      (0x105BB, 0x105BC, 1, 0x10594), (0x10CC0, 0x10CF2, 1, 0x10C80),
      (0x118C0, 0x118DF, 1, 0x118A0), (0x16E60, 0x16E7F, 1, 0x16E40),
      (0x1E922, 0x1E943, 1, 0x1E900)]"

definition upperSpecial :: "(int \<times> int list) list" where
  "upperSpecial =
     [(0x00DF, [0x0053, 0x0053]), (0x0149, [0x02BC, 0x004E]), (0x01F0, [0x004A, 0x030C]),
      (0x0390, [0x0399, 0x0308, 0x0301]), (0x03B0, [0x03A5, 0x0308, 0x0301]),
      (0x0587, [0x0535, 0x0552]), (0x1E96, [0x0048, 0x0331]), (0x1E97, [0x0054, 0x0308]),
      (0x1E98, [0x0057, 0x030A]), (0x1E99, [0x0059, 0x030A]), (0x1E9A, [0x0041, 0x02BE]),
      (0x1F50, [0x03A5, 0x0313]), (0x1F52, [0x03A5, 0x0313, 0x0300]),
      (0x1F54, [0x03A5, 0x0313, 0x0301]), (0x1F56, [0x03A5, 0x0313, 0x0342]),
      (0x1F80, [0x1F08, 0x0399]), (0x1F81, [0x1F09, 0x0399]), (0x1F82, [0x1F0A, 0x0399]),
      (0x1F83, [0x1F0B, 0x0399]), (0x1F84, [0x1F0C, 0x0399]), (0x1F85, [0x1F0D, 0x0399]),
      (0x1F86, [0x1F0E, 0x0399]), (0x1F87, [0x1F0F, 0x0399]), (0x1F88, [0x1F08, 0x0399]),
      (0x1F89, [0x1F09, 0x0399]), (0x1F8A, [0x1F0A, 0x0399]), (0x1F8B, [0x1F0B, 0x0399]),
      (0x1F8C, [0x1F0C, 0x0399]), (0x1F8D, [0x1F0D, 0x0399]), (0x1F8E, [0x1F0E, 0x0399]),
      (0x1F8F, [0x1F0F, 0x0399]), (0x1F90, [0x1F28, 0x0399]), (0x1F91, [0x1F29, 0x0399]),
      (0x1F92, [0x1F2A, 0x0399]), (0x1F93, [0x1F2B, 0x0399]), (0x1F94, [0x1F2C, 0x0399]),
      (0x1F95, [0x1F2D, 0x0399]), (0x1F96, [0x1F2E, 0x0399]), (0x1F97, [0x1F2F, 0x0399]),
      (0x1F98, [0x1F28, 0x0399]), (0x1F99, [0x1F29, 0x0399]), (0x1F9A, [0x1F2A, 0x0399]),
      (0x1F9B, [0x1F2B, 0x0399]), (0x1F9C, [0x1F2C, 0x0399]), (0x1F9D, [0x1F2D, 0x0399]),
      (0x1F9E, [0x1F2E, 0x0399]), (0x1F9F, [0x1F2F, 0x0399]), (0x1FA0, [0x1F68, 0x0399]),
      (0x1FA1, [0x1F69, 0x0399]), (0x1FA2, [0x1F6A, 0x0399]), (0x1FA3, [0x1F6B, 0x0399]),
      (0x1FA4, [0x1F6C, 0x0399]), (0x1FA5, [0x1F6D, 0x0399]), (0x1FA6, [0x1F6E, 0x0399]),
      (0x1FA7, [0x1F6F, 0x0399]), (0x1FA8, [0x1F68, 0x0399]), (0x1FA9, [0x1F69, 0x0399]),
      (0x1FAA, [0x1F6A, 0x0399]), (0x1FAB, [0x1F6B, 0x0399]), (0x1FAC, [0x1F6C, 0x0399]),
      (0x1FAD, [0x1F6D, 0x0399]), (0x1FAE, [0x1F6E, 0x0399]), (0x1FAF, [0x1F6F, 0x0399]),
      (0x1FB2, [0x1FBA, 0x0399]), (0x1FB3, [0x0391, 0x0399]), (0x1FB4, [0x0386, 0x0399]),
      (0x1FB6, [0x0391, 0x0342]), (0x1FB7, [0x0391, 0x0342, 0x0399]),
      (0x1FBC, [0x0391, 0x0399]), (0x1FC2, [0x1FCA, 0x0399]), (0x1FC3, [0x0397, 0x0399]),
      (0x1FC4, [0x0389, 0x0399]), (0x1FC6, [0x0397, 0x0342]),
      (0x1FC7, [0x0397, 0x0342, 0x0399]), (0x1FCC, [0x0397, 0x0399]),
      (0x1FD2, [0x0399, 0x0308, 0x0300]), (0x1FD3, [0x0399, 0x0308, 0x0301]),
      (0x1FD6, [0x0399, 0x0342]), (0x1FD7, [0x0399, 0x0308, 0x0342]),
      (0x1FE2, [0x03A5, 0x0308, 0x0300]), (0x1FE3, [0x03A5, 0x0308, 0x0301]),
      (0x1FE4, [0x03A1, 0x0313]), (0x1FE6, [0x03A5, 0x0342]),
      (0x1FE7, [0x03A5, 0x0308, 0x0342]), (0x1FF2, [0x1FFA, 0x0399]),
      (0x1FF3, [0x03A9, 0x0399]), (0x1FF4, [0x038F, 0x0399]), (0x1FF6, [0x03A9, 0x0342]),
      (0x1FF7, [0x03A9, 0x0342, 0x0399]), (0x1FFC, [0x03A9, 0x0399]),
      (0xFB00, [0x0046, 0x0046]), (0xFB01, [0x0046, 0x0049]), (0xFB02, [0x0046, 0x004C]),
      (0xFB03, [0x0046, 0x0046, 0x0049]), (0xFB04, [0x0046, 0x0046, 0x004C]),
      (0xFB05, [0x0053, 0x0054]), (0xFB06, [0x0053, 0x0054]), (0xFB13, [0x0544, 0x0546]),
      (0xFB14, [0x0544, 0x0535]), (0xFB15, [0x0544, 0x053B]), (0xFB16, [0x054E, 0x0546]),
      (0xFB17, [0x0544, 0x053D])]"

definition upperCodePoint :: "int \<Rightarrow> int list" where
  "upperCodePoint c =
     (case find (\<lambda>(first, final, step, target). first \<le> c \<and> c \<le> final \<and> (c - first) mod step = 0)
             upperRanges of
        Some (first, final, step, target) \<Rightarrow> [target + (c - first)]
      | None \<Rightarrow> (case map_of upperSpecial c of Some cs \<Rightarrow> cs | None \<Rightarrow> [c]))"

definition toUpperCase :: "jsstring \<Rightarrow> jsstring" where
  "toUpperCase s = concat (map codeUnits (concat (map upperCodePoint (codePoints s))))"

text \<open>\<open>s.startsWith(sub)\<close>, and \<open>s.includes(sub)\<close>: \<open>sub\<close> starts at some position of \<open>s\<close>.\<close>

fun startsWith :: "jsstring \<Rightarrow> jsstring \<Rightarrow> bool" where
  "startsWith s [] = True"
| "startsWith [] (p # ps) = False"
| "startsWith (c # cs) (p # ps) = (if c = p then startsWith cs ps else False)"

fun includes_js :: "jsstring \<Rightarrow> jsstring \<Rightarrow> bool" where
  "includes_js [] sub = (sub = [])"
| "includes_js (c # cs) sub =
     (if startsWith (c # cs) sub then True else includes_js cs sub)"

text \<open>\<open>xs.join(sep)\<close> on an array of strings.\<close>

fun join :: "jsstring \<Rightarrow> jsstring list \<Rightarrow> jsstring" where
  "join sep [] = []"
| "join sep [x] = x"
| "join sep (x # y # ys) = x @ sep @ join sep (y # ys)"

text \<open>
  \<open>index.toString()\<close>, and the index inside a template string: the decimal digits of a
  natural number.
\<close>

definition digitChar :: "nat \<Rightarrow> jschar" where
  "digitChar d = of_nat (48 + d)"

fun decimal :: "nat \<Rightarrow> jsstring" where
  "decimal n = (if n < 10 then [digitChar n] else decimal (n div 10) @ [digitChar (n mod 10)])"

declare decimal.simps [simp del]

subsection \<open>The regular expressions of the source\<close>

text \<open>
  Every regular expression built by the classifier has the form \<open>\bw\b\<close> or
  \<open>\b(w1|...|wn)\b\<close> with literal words. \<open>\w\<close> is \<open>[A-Za-z0-9_]\<close>, also under the
  \<open>i\<close> flag (the \<open>u\<close> flag is never set). Under \<open>i\<close> two code units match when their
  canonical forms agree: the upper case, unless it has more than one unit or maps a
  non-ASCII unit to an ASCII one.
\<close>

definition isWordChar :: "jschar \<Rightarrow> bool" where
  "isWordChar c \<longleftrightarrow>
     (0x30 \<le> c \<and> c \<le> 0x39) \<or> (0x41 \<le> c \<and> c \<le> 0x5A) \<or> c = 0x5F \<or> (0x61 \<le> c \<and> c \<le> 0x7A)"

definition canonicalize :: "bool \<Rightarrow> jschar \<Rightarrow> jschar" where
  "canonicalize ignoreCase c =
     (if \<not> ignoreCase then c
      else (case upperUnits c of
              [cu] \<Rightarrow> (if 128 \<le> c \<and> cu < 128 then c else cu)
            | _ \<Rightarrow> c))"

text \<open>
  Matching the literal \<open>w\<close> at the front of the input: the rest of the input after the
  match, when there is one.
\<close>

fun matchLiteral :: "bool \<Rightarrow> jsstring \<Rightarrow> jsstring \<Rightarrow> jsstring option" where
  "matchLiteral ic [] s = Some s"
| "matchLiteral ic (p # ps) [] = None"
| "matchLiteral ic (p # ps) (c # cs) =
     (if canonicalize ic p = canonicalize ic c then matchLiteral ic ps cs else None)"

text \<open>
  \<open>\b\<close> between the code unit before the position (\<open>None\<close> at the start of the input)
  and the input from the position on.
\<close>

definition wordBoundary :: "jschar option \<Rightarrow> jsstring \<Rightarrow> bool" where
  "wordBoundary prev rest \<longleftrightarrow>
     (case prev of None \<Rightarrow> False | Some p \<Rightarrow> isWordChar p) \<noteq>
     (case rest of [] \<Rightarrow> False | c # _ \<Rightarrow> isWordChar c)"

text \<open>\<open>\bw\b\<close> matches at the current position.\<close>

definition matchWordAt :: "bool \<Rightarrow> jsstring \<Rightarrow> jschar option \<Rightarrow> jsstring \<Rightarrow> bool" where
  "matchWordAt ic w prev s =
     (if wordBoundary prev s
      then (case matchLiteral ic w s of
              None \<Rightarrow> False
            | Some rest \<Rightarrow> wordBoundary (if w = [] then prev else Some (s ! (length w - 1))) rest)
      else False)"

text \<open>
  \<open>/\b(w1|...|wn)\b/.test(s)\<close>: some position of the input, its end included, where one
  of the alternatives matches between two word boundaries.
\<close>

fun testFrom :: "jsstring list \<Rightarrow> jschar option \<Rightarrow> jsstring \<Rightarrow> bool" where
  "testFrom alts prev [] = list_ex (\<lambda>w. matchWordAt False w prev []) alts"
| "testFrom alts prev (c # cs) =
     (if list_ex (\<lambda>w. matchWordAt False w prev (c # cs)) alts then True
      else testFrom alts (Some c) cs)"

definition regexTest :: "jsstring list \<Rightarrow> jsstring \<Rightarrow> bool" where
  "regexTest alts s = testFrom alts None s"

text \<open>
  \<open>s.match(regex)\<close> for the regular expression \<open>\bw\b\<close> with the flags \<open>gi\<close>: the
  matches are found from left to right,
  each search starting where the last match ended (one unit further after an empty
  match); the function counts them, \<open>0\<close> standing for the \<open>null\<close> of no match.
\<close>

function countFrom :: "jsstring \<Rightarrow> jschar option \<Rightarrow> jsstring \<Rightarrow> nat" where
  "countFrom w prev [] = (if matchWordAt True w prev [] then 1 else 0)"
| "countFrom w prev (c # cs) =
     (if matchWordAt True w prev (c # cs)
      then Suc (countFrom w (Some ((c # cs) ! (length w - 1))) (drop (length w - 1) cs))
      else countFrom w (Some c) cs)"
  by pat_completeness auto
termination
  by (relation "measure (\<lambda>(w, prev, s). length s)") auto

definition matchCount :: "jsstring \<Rightarrow> jsstring \<Rightarrow> nat" where
  "matchCount w s = countFrom w None s"

section \<open>Values of a request body\<close>

text \<open>
  The request bodies are parsed JSON. A field of a request is \<open>None\<close> when the body does
  not have it (\<open>undefined\<close> after destructuring). A number is given by its value. An
  object is the list of its members; of two members of one name the later one counts.
\<close>

datatype json =
    JNull
  | JBool bool
  | JNum rat
  | JStr jsstring
  | JArr "json list"
  | JObj "(jsstring \<times> json) list"

datatype error = Error string | TypeError

fun truthy :: "json option \<Rightarrow> bool" where
  "truthy None = False"
| "truthy (Some JNull) = False"
| "truthy (Some (JBool b)) = b"
| "truthy (Some (JNum n)) = (n \<noteq> 0)"
| "truthy (Some (JStr s)) = (s \<noteq> [])"
| "truthy (Some (JArr xs)) = True"
| "truthy (Some (JObj kvs)) = True"

text \<open>
  Calling a string method (\<open>substring\<close>, \<open>toUpperCase\<close>, \<open>toLowerCase\<close>) on a value:
  only a string has it; on \<open>undefined\<close> and \<open>null\<close> the property access throws a
  TypeError, on every other JSON value the property is not a function.
\<close>

fun asString :: "json option \<Rightarrow> error + jsstring" where
  "asString (Some (JStr s)) = Inr s"
| "asString _ = Inl TypeError"

text \<open>
  An object under construction is the list of its properties; an assignment
  \<open>obj[k] = v\<close> replaces the value of an existing key and appends a new one.
\<close>

fun setProperty :: "jsstring \<Rightarrow> json \<Rightarrow> (jsstring \<times> json) list \<Rightarrow> (jsstring \<times> json) list" where
  "setProperty k v [] = [(k, v)]"
| "setProperty k v (p # ps) = (if fst p = k then (k, v) # ps else p # setProperty k v ps)"

text \<open>\<open>Object.keys(v).length\<close>, which throws on \<open>null\<close>.\<close>

fun objectKeysLength :: "json \<Rightarrow> error + nat" where
  "objectKeysLength JNull = Inl TypeError"
| "objectKeysLength (JBool b) = Inr 0"
| "objectKeysLength (JNum n) = Inr 0"
| "objectKeysLength (JStr s) = Inr (length s)"
| "objectKeysLength (JArr xs) = Inr (length xs)"
| "objectKeysLength (JObj kvs) = Inr (length (remdups (map fst kvs)))"

text \<open>The default of a destructured field: it replaces \<open>undefined\<close> only.\<close>

fun withDefault :: "json option \<Rightarrow> json \<Rightarrow> json" where
  "withDefault None d = d"
| "withDefault (Some v) d = v"

text \<open>
  Converting a value to a string, as a substitution of a template string does, or to a
  primitive, as the operator \<open>+\<close> does. Nothing can fail for \<open>undefined\<close>, \<open>null\<close>, a
  boolean, a number or a string. An array is converted by \<open>Array.prototype.toString\<close>,
  which joins the conversions of its elements, \<open>null\<close> counting as the empty string. A
  parsed object inherits \<open>valueOf\<close>, which returns the object itself, and \<open>toString\<close>,
  which returns a string. A member of its own named \<open>toString\<close> hides the inherited
  method and is not a function, whatever its value: then neither method yields a
  primitive, and both conversions throw a TypeError. A member named \<open>valueOf\<close> only hides
  a method that yields no primitive. \<open>convertible\<close> says that the conversion succeeds;
  \<open>interpolate\<close> is the evaluation of one substitution, of which the model keeps the
  exception and not the text.
\<close>

fun convertible :: "json \<Rightarrow> bool" where
  "convertible (JArr xs) = list_all convertible xs"
| "convertible (JObj kvs) = (ascii ''toString'' \<notin> set (map fst kvs))"
| "convertible _ = True"

definition interpolate :: "json option \<Rightarrow> error + unit" where
  "interpolate v =
     (case v of
        None \<Rightarrow> Inr ()
      | Some x \<Rightarrow> if convertible x then Inr () else Inl TypeError)"

text \<open>
  The property \<open>length\<close> of a truthy value: the number of code units of a string, the
  number of elements of an array, the member of that name of an object, and \<open>undefined\<close>
  on a number and on \<open>true\<close>.
\<close>

fun getLength :: "json \<Rightarrow> json option" where
  "getLength (JStr s) = Some (JNum (of_nat (length s)))"
| "getLength (JArr xs) = Some (JNum (of_nat (length xs)))"
| "getLength (JObj kvs) = map_of (rev kvs) (ascii ''length'')"
| "getLength _ = None"

text \<open>
  The log of the length of the context, \<open>`${translationContext.length}`\<close>, which both
  \<open>processTranslation\<close> and \<open>translateWithClaude\<close> evaluate for a truthy context only.
\<close>

definition logContextLength :: "json option \<Rightarrow> error + unit" where
  "logContextLength translationContext =
     (case translationContext of
        None \<Rightarrow> Inr ()
      | Some v \<Rightarrow> if truthy (Some v) then interpolate (getLength v) else Inr ())"

section \<open>The translation pipeline\<close>

subsection \<open>preprocessTextForTranslation\<close>

text \<open>
  The first statement logs \<open>text.substring(0, 50)\<close>, which throws a TypeError unless
  \<open>text\<close> is a string. The three returns of the source are kept apart.
\<close>

definition preprocessTextForTranslation :: "json \<Rightarrow> nat \<Rightarrow> error + jsstring" where
  "preprocessTextForTranslation text index =
     (case asString (Some text) of
        Inl e \<Rightarrow> Inl e
      | Inr s \<Rightarrow>
          (let cleaned = trim (replaceWhitespaceRuns s) in
           if cleaned = [] \<or> length cleaned = 0 then Inr []
           else if length cleaned < 3 then Inr cleaned
           else Inr cleaned))"

text \<open>\<open>chunkTexts.map((text, i) => preprocessTextForTranslation(text, i))\<close> from index \<open>i\<close> on.\<close>

fun preprocessAll :: "json list \<Rightarrow> nat \<Rightarrow> error + jsstring list" where
  "preprocessAll [] i = Inr []"
| "preprocessAll (text # rest) i =
     (case preprocessTextForTranslation text i of
        Inl e \<Rightarrow> Inl e
      | Inr t \<Rightarrow> (case preprocessAll rest (Suc i) of
                   Inl e \<Rightarrow> Inl e
                 | Inr ts \<Rightarrow> Inr (t # ts)))"

subsection \<open>translateWithClaude\<close>

text \<open>
  The remote model is outside the repository. What the model of the call keeps is what
  decides whether the call throws: the first log, which converts \<open>sourceLang\<close> and
  \<open>targetLang\<close> to strings; for a truthy context the logs of its length and of
  \<open>translationContext.substring(0, 100)\<close>; the API key of the process environment; and
  the outcome of the request and of parsing its reply, which is a parameter: \<open>Inl\<close> for
  any failure (network, status, empty body, malformed JSON), \<open>Inr v\<close> for the parsed
  reply \<open>v\<close>. A reply that parses to \<open>null\<close> makes \<open>Object.keys\<close> throw inside the inner
  \<open>try\<close>, which rethrows. The prompt is built from values that the logs have converted
  already, and only travels to the remote model.
\<close>

record 'a upstream =
  apiKey :: "jsstring option"
  reply :: "error + 'a"

definition apiKeyConfigured :: "'a upstream \<Rightarrow> bool" where
  "apiKeyConfigured up = (case apiKey up of None \<Rightarrow> False | Some k \<Rightarrow> k \<noteq> [])"

definition translateWithClaude ::
  "json upstream \<Rightarrow> jsstring list \<Rightarrow> json option \<Rightarrow> json option \<Rightarrow> json option \<Rightarrow> error + json" where
  "translateWithClaude up chunkTexts sourceLang targetLang translationContext =
     (case interpolate sourceLang of
        Inl e \<Rightarrow> Inl e
      | Inr _ \<Rightarrow>
     (case interpolate targetLang of
        Inl e \<Rightarrow> Inl e
      | Inr _ \<Rightarrow>
     (case logContextLength translationContext of
        Inl e \<Rightarrow> Inl e
      | Inr _ \<Rightarrow>
     (case (if truthy translationContext then asString translationContext else Inr []) of
        Inl e \<Rightarrow> Inl e
      | Inr _ \<Rightarrow>
          if \<not> apiKeyConfigured up then Inl (Error ''Claude API key not configured'')
          else (case reply up of
                  Inl e \<Rightarrow> Inl e
                | Inr translations \<Rightarrow>
                    (case objectKeysLength translations of
                       Inl e \<Rightarrow> Inl (Error ''Failed to parse Claude response'')
                     | Inr n \<Rightarrow> Inr translations))))))"

subsection \<open>generateContextualFallbacks\<close>

text \<open>
  The body of the \<open>forEach\<close> callback for one text: the value stored under the key
  \<open>index.toString()\<close>, or the TypeError of \<open>targetLang.toUpperCase()\<close> or
  \<open>translationContext.toLowerCase()\<close> on a value that is not a string. Every template
  string of the callback is a token and the index between brackets (\<open>placeholder\<close>); the
  default one is evaluated first in the source and is the result when no keyword is found.
\<close>

definition placeholder :: "jsstring \<Rightarrow> nat \<Rightarrow> jsstring" where
  "placeholder token index = ascii ''['' @ token @ ascii ''_'' @ decimal index @ ascii '']''"

definition fallbackFor :: "jsstring \<Rightarrow> nat \<Rightarrow> json option \<Rightarrow> json option \<Rightarrow> error + jsstring" where
  "fallbackFor text index targetLang translationContext =
     (if text = [] \<or> length (trim text) = 0 then Inr []
      else (case asString targetLang of
              Inl e \<Rightarrow> Inl e
            | Inr lang \<Rightarrow>
                if truthy translationContext then
                  (case asString translationContext of
                     Inl e \<Rightarrow> Inl e
                   | Inr ctx \<Rightarrow>
                       if includes_js (toLowerCase ctx) (ascii ''occupational'') \<or>
                          includes_js (toLowerCase ctx) (ascii ''prl'')
                       then Inr (placeholder (ascii ''WORKPLACE_SAFETY_'' @ toUpperCase lang) index)
                       else if includes_js (toLowerCase ctx) (ascii ''technical'')
                       then Inr (placeholder (ascii ''TECHNICAL_'' @ toUpperCase lang) index)
                       else if includes_js (toLowerCase ctx) (ascii ''educational'')
                       then Inr (placeholder (ascii ''EDUCATIONAL_'' @ toUpperCase lang) index)
                       else Inr (placeholder (toUpperCase lang @ ascii ''_TRANSLATION'') index))
                else Inr (placeholder (toUpperCase lang @ ascii ''_TRANSLATION'') index)))"

text \<open>
  \<open>texts.forEach((text, index) => ...)\<close> from \<open>index\<close> on, over the object built so far;
  an exception of the callback ends the loop. The texts are strings: the handler passes
  the preprocessed texts.
\<close>

fun fallbackLoop ::
  "jsstring list \<Rightarrow> nat \<Rightarrow> json option \<Rightarrow> json option \<Rightarrow> (jsstring \<times> json) list \<Rightarrow>
     error + (jsstring \<times> json) list" where
  "fallbackLoop [] index targetLang translationContext fallbacks = Inr fallbacks"
| "fallbackLoop (text # rest) index targetLang translationContext fallbacks =
     (case fallbackFor text index targetLang translationContext of
        Inl e \<Rightarrow> Inl e
      | Inr v \<Rightarrow> fallbackLoop rest (Suc index) targetLang translationContext
                  (setProperty (decimal index) (JStr v) fallbacks))"

definition generateContextualFallbacks ::
  "jsstring list \<Rightarrow> json option \<Rightarrow> json option \<Rightarrow> error + json" where
  "generateContextualFallbacks texts targetLang translationContext =
     (case fallbackLoop texts 0 targetLang translationContext [] of
        Inl e \<Rightarrow> Inl e
      | Inr fallbacks \<Rightarrow> Inr (JObj fallbacks))"

section \<open>Numbers\<close>

text \<open>
  A finite Number is the rational it denotes. \<open>roundToDouble\<close> is the rounding of IEEE 754
  binary64 arithmetic: to the nearest value with a significand of 53 bits, a tie going to
  the even significand. The exponent range is not modelled; the quotients and products of
  the classifier are far inside it.
\<close>

definition pow2 :: "int \<Rightarrow> rat" where
  "pow2 e = (if 0 \<le> e then 2 ^ nat e else 1 / 2 ^ nat (- e))"

text \<open>The exponent \<open>e\<close> with \<open>2 ^ e \<le> x < 2 ^ (e + 1)\<close>, for a positive \<open>x\<close>.\<close>

definition floorLog2 :: "rat \<Rightarrow> int" where
  "floorLog2 x =
     (let (a, b) = quotient_of x;
          d = bitlen a - bitlen b
      in if pow2 d \<le> x then d else d - 1)"

definition roundHalfEven :: "rat \<Rightarrow> int" where
  "roundHalfEven q =
     (let f = \<lfloor>q\<rfloor>; r = q - of_int f
      in if r < 1 / 2 then f
         else if 1 / 2 < r then f + 1
         else if even f then f else f + 1)"

definition roundToDouble :: "rat \<Rightarrow> rat" where
  "roundToDouble x =
     (if x = 0 then 0
      else (let ulp = pow2 (floorLog2 \<bar>x\<bar> - 52)
            in sgn x * of_int (roundHalfEven (\<bar>x\<bar> / ulp)) * ulp))"

text \<open>The operators \<open>/\<close> and \<open>*\<close> on finite Numbers, for a divisor other than zero.\<close>

definition js_divide :: "rat \<Rightarrow> rat \<Rightarrow> rat" where
  "js_divide a b = roundToDouble (a / b)"

definition js_times :: "rat \<Rightarrow> rat \<Rightarrow> rat" where
  "js_times a b = roundToDouble (a * b)"

text \<open>\<open>Math.round\<close>: the nearest integer, a tie going up.\<close>

definition Math_round :: "rat \<Rightarrow> int" where
  "Math_round x = \<lfloor>x + 1 / 2\<rfloor>"

section \<open>The context pipeline\<close>

text \<open>
  The context pipeline is modelled on requests of the declared shape: \<open>sampleTexts\<close> an
  array of strings, \<open>userContext\<close>, \<open>targetLang\<close> and \<open>contentType\<close> strings, each of them
  \<open>None\<close> when the body does not have it.
\<close>

subsection \<open>analyzeContentPatterns\<close>

record content_analysis =
  analysis_contentType :: jsstring
  recommendedTone :: jsstring
  targetAudience :: jsstring
  specialConsiderations :: "jsstring list"

definition uiWords :: "jsstring list" where
  "uiWords =
     [ascii ''click'', ascii ''button'', ascii ''navigate'', ascii ''select'',
      ascii ''choose'', ascii ''continue'', ascii ''next'', ascii ''previous'',
      ascii ''start'', ascii ''complete'']"

definition technicalWords :: "jsstring list" where
  "technicalWords =
     [ascii ''api'', ascii ''system'', ascii ''configuration'', ascii ''database'',
      ascii ''server'', ascii ''technical'', ascii ''setup'', ascii ''install'']"

definition educationalWords :: "jsstring list" where
  "educationalWords =
     [ascii ''lesson'', ascii ''course'', ascii ''learning'', ascii ''training'',
      ascii ''module'', ascii ''chapter'', ascii ''quiz'', ascii ''student'', ascii ''learn'']"

definition corporateWords :: "jsstring list" where
  "corporateWords =
     [ascii ''company'', ascii ''organization'', ascii ''employee'', ascii ''business'',
      ascii ''corporate'', ascii ''workplace'', ascii ''team'']"

text \<open>
  The four checks run in the order of the source, each on the record left by the ones
  before it.
\<close>

definition analyzeContentPatterns :: "jsstring list \<Rightarrow> content_analysis" where
  "analyzeContentPatterns sampleTexts =
     (let allContent = toLowerCase (join (ascii '' '') sampleTexts);
          analysis = \<lparr> analysis_contentType = ascii ''Educational/Training Content'',
                       recommendedTone = ascii ''Professional'',
                       targetAudience = ascii ''Learners'',
                       specialConsiderations = [] \<rparr>;
          analysis =
            (if regexTest uiWords allContent
             then analysis\<lparr> specialConsiderations :=
                    (specialConsiderations analysis @ [ascii ''UI elements'']) @ [ascii ''interaction clarity''] \<rparr>
             else analysis);
          analysis =
            (if regexTest technicalWords allContent
             then analysis\<lparr> recommendedTone := ascii ''Technical'',
                            targetAudience := ascii ''Technical Users'',
                            specialConsiderations := specialConsiderations analysis @ [ascii ''technical accuracy''] \<rparr>
             else analysis);
          analysis =
            (if regexTest educationalWords allContent
             then analysis\<lparr> analysis_contentType := ascii ''E-Learning Platform'',
                            specialConsiderations := specialConsiderations analysis @ [ascii ''learning flow''] \<rparr>
             else analysis);
          analysis =
            (if regexTest corporateWords allContent
             then analysis\<lparr> analysis_contentType := ascii ''Corporate Training'',
                            targetAudience := ascii ''Employees'',
                            recommendedTone := ascii ''Professional'' \<rparr>
             else analysis)
      in analysis)"

subsection \<open>detectContentDomain\<close>

datatype domainKey = prl | technical | educational | corporate

text \<open>\<open>Object.keys(domains)\<close>: the keys in the order the object literal lists them.\<close>

definition domainKeys :: "domainKey list" where
  "domainKeys = [prl, technical, educational, corporate]"

fun domainName :: "domainKey \<Rightarrow> jsstring" where
  "domainName prl = ascii ''Occupational Health & Safety (PRL)''"
| "domainName technical = ascii ''Technical & IT Training''"
| "domainName educational = ascii ''Educational & E-Learning''"
| "domainName corporate = ascii ''Corporate Training''"

definition prlKeywords :: "jsstring list" where
  "prlKeywords =
     [ascii ''prl'', ascii ''prevenci'' @ [0xF3] @ ascii ''n'', ascii ''riesgos laborales'',
      ascii ''ergonom'' @ [0xED] @ ascii ''a'', ascii ''postura'', ascii ''asiento'',
      ascii ''respaldo'', ascii ''estr'' @ [0xE9] @ ascii ''s laboral'', ascii ''seguridad'',
      ascii ''salud laboral'', ascii ''workplace safety'', ascii ''occupational health'',
      ascii ''ergonomic'', ascii ''posture'', ascii ''safety guidelines'',
      ascii ''health risks'', ascii ''prevention'']"

definition technicalKeywords :: "jsstring list" where
  "technicalKeywords =
     [ascii ''api'', ascii ''system'', ascii ''software'', ascii ''configuration'',
      ascii ''install'', ascii ''database'', ascii ''server'', ascii ''code'',
      ascii ''technical'', ascii ''setup'', ascii ''data'', ascii ''process'',
      ascii ''function'', ascii ''network'', ascii ''interface'', ascii ''development'']"

definition educationalKeywords :: "jsstring list" where
  "educationalKeywords =
     [ascii ''lesson'', ascii ''course'', ascii ''learning'', ascii ''training'',
      ascii ''module'', ascii ''chapter'', ascii ''quiz'', ascii ''assessment'',
      ascii ''knowledge'', ascii ''skill'', ascii ''student'', ascii ''learn'',
      ascii ''teach'', ascii ''education'', ascii ''instruction'']"

definition corporateKeywords :: "jsstring list" where
  "corporateKeywords =
     [ascii ''company'', ascii ''organization'', ascii ''team'', ascii ''department'',
      ascii ''employee'', ascii ''business'', ascii ''corporate'', ascii ''workplace'',
      ascii ''professional'', ascii ''management'', ascii ''process'', ascii ''procedure'',
      ascii ''policy'']"

fun domainKeywords :: "domainKey \<Rightarrow> jsstring list" where
  "domainKeywords prl = prlKeywords"
| "domainKeywords technical = technicalKeywords"
| "domainKeywords educational = educationalKeywords"
| "domainKeywords corporate = corporateKeywords"

text \<open>
  The inner \<open>forEach\<close>: the weight of a domain after its keywords, each adding the number of
  its matches in the content.
\<close>

definition keywordWeight :: "jsstring \<Rightarrow> jsstring list \<Rightarrow> nat" where
  "keywordWeight allContent keywords =
     foldl (\<lambda>weight keyword. weight + matchCount keyword allContent) 0 keywords"

definition domainWeight :: "jsstring \<Rightarrow> domainKey \<Rightarrow> nat" where
  "domainWeight allContent domainKey = keywordWeight allContent (domainKeywords domainKey)"

text \<open>
  \<open>Object.keys(domains).reduce((a, b) => domains[a].weight > domains[b].weight ? a : b)\<close>:
  without an initial value the accumulator starts as the first key and the callback runs
  over the keys after it.
\<close>

definition dominantOf :: "(domainKey \<Rightarrow> nat) \<Rightarrow> domainKey" where
  "dominantOf weight =
     foldl (\<lambda>a b. if weight a > weight b then a else b) prl [technical, educational, corporate]"

text \<open>
  The confidence. A positive weight over no sample at all would divide by zero, giving
  \<open>Infinity\<close>, which \<open>Math.min\<close> caps at 95.
\<close>

definition confidenceOf :: "nat \<Rightarrow> nat \<Rightarrow> int" where
  "confidenceOf maxWeight sampleCount =
     (if maxWeight > 0
      then (if sampleCount = 0 then 95
            else min (Math_round (js_times (js_divide (of_nat maxWeight) (of_nat sampleCount)) 100)) 95)
      else 50)"

record domain_analysis =
  primary :: domainKey
  description :: jsstring
  confidence :: int
  weights :: "(domainKey \<times> nat) list"

definition detectContentDomain :: "jsstring list \<Rightarrow> domain_analysis" where
  "detectContentDomain sampleTexts =
     (let allContent = toLowerCase (join (ascii '' '') sampleTexts);
          dominantDomain = dominantOf (domainWeight allContent);
          maxWeight = domainWeight allContent dominantDomain
      in \<lparr> primary = dominantDomain,
           description = domainName dominantDomain,
           confidence = confidenceOf maxWeight (length sampleTexts),
           weights = map (\<lambda>key. (key, domainWeight allContent key)) domainKeys \<rparr>)"

subsection \<open>getTerminologyApproach\<close>

text \<open>
  The lookup \<open>approaches[domain]\<close> finds a non-empty string for each of the four keys, so
  the generic phrase after \<open>||\<close> is never taken.
\<close>

fun getTerminologyApproach :: "domainKey \<Rightarrow> jsstring \<Rightarrow> jsstring" where
  "getTerminologyApproach prl targetLang =
     ascii ''Professional '' @ targetLang @
     ascii '' workplace safety terminology, technical precision for ergonomic and health concepts''"
| "getTerminologyApproach technical targetLang =
     ascii ''Technical '' @ targetLang @
     ascii '' terminology with accuracy for system/software concepts, maintain English technical terms where standard''"
| "getTerminologyApproach educational targetLang =
     ascii ''Clear, accessible '' @ targetLang @
     ascii '' with educational clarity, avoid overly technical jargon unless necessary''"
| "getTerminologyApproach corporate targetLang =
     ascii ''Professional business '' @ targetLang @
     ascii '' terminology, formal register appropriate for corporate environment''"

subsection \<open>generateEnhancedLocalContext\<close>

text \<open>
  A template string turns the array \<open>specialConsiderations\<close> into a string as
  \<open>Array.prototype.toString\<close> does: the elements joined by a comma.
\<close>

definition generateEnhancedLocalContext :: "jsstring list \<Rightarrow> jsstring \<Rightarrow> jsstring \<Rightarrow> jsstring" where
  "generateEnhancedLocalContext sampleTexts userContext targetLang =
     (let analysis = analyzeContentPatterns sampleTexts;
          domainAnalysis = detectContentDomain sampleTexts;
          contextualPrompt = ascii ''**CONTENT TYPE**: '' @ analysis_contentType analysis @ [0x0A];
          contextualPrompt = contextualPrompt @
            ascii ''**DOMAIN**: '' @ description domainAnalysis @ [0x0A];
          contextualPrompt = contextualPrompt @
            ascii ''**TERMINOLOGY APPROACH**: '' @
            getTerminologyApproach (primary domainAnalysis) targetLang @ [0x0A];
          contextualPrompt = contextualPrompt @
            ascii ''**TONE**: '' @ recommendedTone analysis @ [0x0A];
          contextualPrompt = contextualPrompt @
            ascii ''**AUDIENCE**: '' @ targetAudience analysis @ [0x0A];
          contextualPrompt = contextualPrompt @
            ascii ''**SPECIAL CONSIDERATIONS**: '' @
            join (ascii '','') (specialConsiderations analysis) @ [0x0A];
          contextualPrompt =
            (if userContext \<noteq> [] \<and> length (trim userContext) > 0
             then contextualPrompt @ ascii ''**USER REQUIREMENTS**: '' @ trim userContext @ [0x0A]
             else contextualPrompt);
          contextualPrompt = contextualPrompt @
            ascii ''**QUALITY STANDARDS**: Maintain XML structure integrity, preserve spacing, ensure '' @
            targetLang @ ascii '' linguistic accuracy'' @ [0x0A]
      in trim contextualPrompt)"

subsection \<open>generateContextWithClaude\<close>

text \<open>
  As for the translation: the API key, then the outcome of the request, \<open>Inr\<close> carrying the
  text of the reply; an empty text is an error, any other is returned trimmed.
\<close>

definition generateContextWithClaude ::
  "jsstring upstream \<Rightarrow> jsstring list \<Rightarrow> jsstring \<Rightarrow> jsstring \<Rightarrow> error + jsstring" where
  "generateContextWithClaude up sampleTexts userContext targetLang =
     (if \<not> apiKeyConfigured up then Inl (Error ''Claude API key not configured'')
      else (case reply up of
              Inl e \<Rightarrow> Inl e
            | Inr responseText \<Rightarrow>
                if responseText = [] then Inl (Error ''Claude API returned empty response'')
                else Inr (trim responseText)))"

section \<open>The request handlers\<close>

subsection \<open>processTranslation\<close>

text \<open>
  The label \<open>`${chunkIndex + 1}/${totalChunks}`\<close>, from the fields of the request with
  their defaults 0 and 1: the sum converts \<open>chunkIndex\<close> to a primitive and the second
  substitution converts \<open>totalChunks\<close> to a string. The handler evaluates it twice, in the
  log that follows the validation and for the field \<open>chunkInfo\<close> of the response.
\<close>

definition chunkInfo :: "json option \<Rightarrow> json option \<Rightarrow> error + unit" where
  "chunkInfo chunkIndex totalChunks =
     (case interpolate (Some (withDefault chunkIndex (JNum 0))) of
        Inl e \<Rightarrow> Inl e
      | Inr _ \<Rightarrow> interpolate (Some (withDefault totalChunks (JNum 1))))"

record translation_request =
  chunkTexts :: "json option"
  chunkIndex :: "json option"
  totalChunks :: "json option"
  sourceLang :: "json option"
  targetLang :: "json option"
  translationContext :: "json option"
  sourceContent :: "json option"

text \<open>
  The response without its clock readings (\<open>processingTimeMs\<close>, \<open>timestamp\<close>) and the
  text of the \<open>chunkInfo\<close> label; \<open>response_translations\<close> is the field \<open>translations\<close>,
  and the fields of \<open>stats\<close> and \<open>metadata\<close> are prefixed.
\<close>

record translation_response =
  success :: bool
  response_chunkIndex :: json
  response_translations :: json
  stats_textsProcessed :: nat
  stats_realTranslations :: nat
  stats_chunkComplete :: bool
  stats_contextualTranslation :: bool
  metadata_sourceLang :: json
  metadata_targetLang :: "json option"

text \<open>
  The validation, the two logs that follow it, the preprocessing of every text, the
  remote call with the fallback in its \<open>catch\<close>, and the response. Only the remote call is
  inside the \<open>try\<close>: an exception of any other step is the result of the handler.
\<close>

definition processTranslation :: "json upstream \<Rightarrow> translation_request \<Rightarrow> error + translation_response" where
  "processTranslation up requestData =
     (case chunkTexts requestData of
        Some (JArr texts) \<Rightarrow>
          if \<not> truthy (targetLang requestData) then Inl (Error ''Target language is required'')
          else if length texts = 0 then Inl (Error ''chunkTexts array cannot be empty'')
          else
            (case chunkInfo (chunkIndex requestData) (totalChunks requestData) of
               Inl e \<Rightarrow> Inl e
             | Inr _ \<Rightarrow>
            (case logContextLength (translationContext requestData) of
               Inl e \<Rightarrow> Inl e
             | Inr _ \<Rightarrow>
            (case preprocessAll texts 0 of
               Inl e \<Rightarrow> Inl e
             | Inr processedTexts \<Rightarrow>
                 (case (case translateWithClaude up processedTexts
                               (Some (withDefault (sourceLang requestData) (JStr (ascii ''en''))))
                               (targetLang requestData) (translationContext requestData) of
                          Inr t \<Rightarrow> Inr t
                        | Inl error \<Rightarrow>
                            generateContextualFallbacks processedTexts
                              (targetLang requestData) (translationContext requestData)) of
                    Inl e \<Rightarrow> Inl e
                  | Inr t \<Rightarrow>
                      (case objectKeysLength t of
                         Inl e \<Rightarrow> Inl e
                       | Inr n \<Rightarrow>
                           (case chunkInfo (chunkIndex requestData) (totalChunks requestData) of
                              Inl e \<Rightarrow> Inl e
                            | Inr _ \<Rightarrow>
                           Inr \<lparr> success = True,
                                 response_chunkIndex = withDefault (chunkIndex requestData) (JNum 0),
                                 response_translations = t,
                                 stats_textsProcessed = length processedTexts,
                                 stats_realTranslations = n,
                                 stats_chunkComplete = True,
                                 stats_contextualTranslation = truthy (translationContext requestData),
                                 metadata_sourceLang = withDefault (sourceLang requestData) (JStr (ascii ''en'')),
                                 metadata_targetLang = targetLang requestData \<rparr>))))))
      | _ \<Rightarrow> Inl (Error ''Missing or invalid chunkTexts array''))"

subsection \<open>generateTranslationContext\<close>

record context_request =
  sampleTexts :: "jsstring list option"
  userContext :: "jsstring option"
  context_targetLang :: "jsstring option"
  contentType :: "jsstring option"

text \<open>
  The response without its clock readings. \<open>context_targetLang\<close> is the field
  \<open>targetLang\<close> of the request, \<open>context_translationContext\<close> the field
  \<open>translationContext\<close> of the response; the fields of \<open>stats\<close> and \<open>metadata\<close> are
  prefixed.
\<close>

record context_response =
  context_success :: bool
  context_translationContext :: jsstring
  stats_sampleTextsAnalyzed :: nat
  stats_contextLength :: nat
  stats_userContextProvided :: bool
  metadata_contextTargetLang :: jsstring
  metadata_contentType :: jsstring
  metadata_generationMethod :: jsstring

fun stringOrDefault :: "jsstring option \<Rightarrow> jsstring \<Rightarrow> jsstring" where
  "stringOrDefault None d = d"
| "stringOrDefault (Some s) d = s"

text \<open>
  The first check of the source rejects a \<open>sampleTexts\<close> that is \<open>null\<close> or not an array;
  on a request of the declared shape it always passes, a missing array taking the
  default \<open>[]\<close>, which the second check rejects.
\<close>

definition generateTranslationContext :: "jsstring upstream \<Rightarrow> context_request \<Rightarrow> error + context_response" where
  "generateTranslationContext up requestData =
     (let samples = (case sampleTexts requestData of None \<Rightarrow> [] | Some xs \<Rightarrow> xs);
          userCtx = stringOrDefault (userContext requestData) [];
          lang = stringOrDefault (context_targetLang requestData) (ascii ''es'');
          ctype = stringOrDefault (contentType requestData) (ascii ''educational'')
      in if length samples = 0 then Inl (Error ''sampleTexts array cannot be empty'')
         else
           (let translationContext =
                  (case generateContextWithClaude up samples userCtx lang of
                     Inr context \<Rightarrow> context
                   | Inl error \<Rightarrow> generateEnhancedLocalContext samples userCtx lang)
            in Inr \<lparr> context_success = True,
                     context_translationContext = translationContext,
                     stats_sampleTextsAnalyzed = length samples,
                     stats_contextLength = length translationContext,
                     stats_userContextProvided = (userCtx \<noteq> []),
                     metadata_contextTargetLang = lang,
                     metadata_contentType = ctype,
                     metadata_generationMethod =
                       (if includes_js translationContext (ascii ''**CONTENT TYPE**'')
                        then ascii ''claude'' else ascii ''local'') \<rparr>))"

section \<open>Properties stated by the claims\<close>

text \<open>No two neighbouring code units of a string are both white space.\<close>

fun noWhitespaceRun :: "jsstring \<Rightarrow> bool" where
  "noWhitespaceRun (a # b # cs) = (\<not> (isWhiteSpace a \<and> isWhiteSpace b) \<and> noWhitespaceRun (b # cs))"
| "noWhitespaceRun _ = True"

text \<open>A JSON value is a string.\<close>

fun isStr :: "json \<Rightarrow> bool" where
  "isStr (JStr s) = True"
| "isStr _ = False"

text \<open>
  The fallback pattern of the claims, \<open>[TOKEN_INDEX]\<close>: an opening bracket, any token, an
  underscore, the decimal index and a closing bracket.
\<close>

definition isPlaceholder :: "nat \<Rightarrow> jsstring \<Rightarrow> bool" where
  "isPlaceholder index v \<longleftrightarrow>
     (let tail = ascii ''_'' @ decimal index @ ascii '']''
      in take 1 v = ascii ''['' \<and> length tail < length v \<and> drop (length v - length tail) v = tail)"

text \<open>
  The token as claim C5 words it: the upper-cased target language followed by
  \<open>_TRANSLATION\<close>, unless the lower-cased guidance contains a keyword, looked for in the
  order occupational or prl, technical, educational. No guidance is an empty guidance.
\<close>

definition claimedToken :: "jsstring \<Rightarrow> jsstring option \<Rightarrow> jsstring" where
  "claimedToken lang ctx =
     (let guidance = toLowerCase (case ctx of None \<Rightarrow> [] | Some c \<Rightarrow> c)
      in if includes_js guidance (ascii ''occupational'') \<or> includes_js guidance (ascii ''prl'')
         then ascii ''WORKPLACE_SAFETY_'' @ toUpperCase lang
         else if includes_js guidance (ascii ''technical'')
         then ascii ''TECHNICAL_'' @ toUpperCase lang
         else if includes_js guidance (ascii ''educational'')
         then ascii ''EDUCATIONAL_'' @ toUpperCase lang
         else toUpperCase lang @ ascii ''_TRANSLATION'')"

text \<open>Reading a decimal numeral back, used to show that \<open>decimal\<close> is injective.\<close>

definition decimalValue :: "jsstring \<Rightarrow> nat" where
  "decimalValue s = foldl (\<lambda>a c. 10 * a + (unat c - 48)) 0 s"

subsection \<open>The regular expressions on a prepared input\<close>

text \<open>
  The matcher above looks at the word class and the canonical form of the same code unit
  once for every keyword. The functions below take the input with both computed in
  advance; they are proved equal to the matcher and serve to evaluate it.
\<close>

definition prepared :: "bool \<Rightarrow> jsstring \<Rightarrow> (jschar \<times> bool) list" where
  "prepared ic s = map (\<lambda>c. (canonicalize ic c, isWordChar c)) s"

definition wordBefore :: "jschar option \<Rightarrow> bool" where
  "wordBefore prev = (case prev of None \<Rightarrow> False | Some p \<Rightarrow> isWordChar p)"

fun wordAhead :: "(jschar \<times> bool) list \<Rightarrow> bool" where
  "wordAhead [] = False"
| "wordAhead (x # xs) = snd x"

fun matchPrepared ::
  "jsstring \<Rightarrow> bool \<Rightarrow> (jschar \<times> bool) list \<Rightarrow> (bool \<times> (jschar \<times> bool) list) option" where
  "matchPrepared [] before s = Some (before, s)"
| "matchPrepared (p # ps) before [] = None"
| "matchPrepared (p # ps) before (x # xs) =
     (if p = fst x then matchPrepared ps (snd x) xs else None)"

definition matchWordPrepared :: "jsstring \<Rightarrow> bool \<Rightarrow> (jschar \<times> bool) list \<Rightarrow> bool" where
  "matchWordPrepared w before s =
     (if before \<noteq> wordAhead s
      then (case matchPrepared w before s of
              None \<Rightarrow> False
            | Some (after, rest) \<Rightarrow> after \<noteq> wordAhead rest)
      else False)"

function countPrepared :: "jsstring \<Rightarrow> bool \<Rightarrow> (jschar \<times> bool) list \<Rightarrow> nat" where
  "countPrepared w before [] = (if matchWordPrepared w before [] then 1 else 0)"
| "countPrepared w before (x # xs) =
     (if matchWordPrepared w before (x # xs)
      then Suc (countPrepared w (snd ((x # xs) ! (length w - 1))) (drop (length w - 1) xs))
      else countPrepared w (snd x) xs)"
  by pat_completeness auto
termination
  by (relation "measure (\<lambda>(w, before, s). length s)") auto

fun testPrepared :: "jsstring list \<Rightarrow> bool \<Rightarrow> (jschar \<times> bool) list \<Rightarrow> bool" where
  "testPrepared alts before [] = list_ex (\<lambda>w. matchWordPrepared w before []) alts"
| "testPrepared alts before (x # xs) =
     (if list_ex (\<lambda>w. matchWordPrepared w before (x # xs)) alts then True
      else testPrepared alts (snd x) xs)"

subsection \<open>The classifier\<close>

text \<open>The position of a domain in the enumeration order \<open>domainKeys\<close>.\<close>

fun domainPosition :: "domainKey \<Rightarrow> nat" where
  "domainPosition prl = 0"
| "domainPosition technical = 1"
| "domainPosition educational = 2"
| "domainPosition corporate = 3"

text \<open>The keyword of claim C4, with U+00ED for its accented letter.\<close>

definition ergonomia :: jsstring where
  "ergonomia = ascii ''ergonom'' @ [0xED] @ ascii ''a''"

text \<open>The keywords of the four domains.\<close>

definition allKeywords :: "jsstring list" where
  "allKeywords = concat (map domainKeywords domainKeys)"

text \<open>The lower-cased concatenation of the samples that both heuristics work on.\<close>

definition allContentOf :: "jsstring list \<Rightarrow> jsstring" where
  "allContentOf samples = toLowerCase (join (ascii '' '') samples)"

text \<open>
  Eight samples, three of them empty, holding the word of claim C4 five times in several
  spellings and no other keyword.
\<close>

definition fiveOfEight :: "jsstring list" where
  "fiveOfEight =
     [ascii ''Ergonom'' @ [0xCD] @ ascii ''a'', [],
      ascii ''ergonom'' @ [0xED] @ ascii ''a (ergonom'' @ [0xED] @ ascii ''a)'', [],
      ascii ''ERGONOM'' @ [0xCD] @ ascii ''A'', [],
      ascii ''ergonom'' @ [0xED] @ ascii ''a.'', []]"

text \<open>The samples of scenario 2 and the block the local analysis builds for them.\<close>

definition scenarioSamples :: "jsstring list" where
  "scenarioSamples = [ascii ''Click continue to proceed'', ascii ''Click continue to proceed'']"

definition scenarioContext :: jsstring where
  "scenarioContext =
     ascii ''**CONTENT TYPE**: Educational/Training Content'' @ [0x0A] @
     ascii ''**DOMAIN**: Corporate Training'' @ [0x0A] @
     ascii ''**TERMINOLOGY APPROACH**: Professional business de terminology, formal register appropriate for corporate environment'' @ [0x0A] @
     ascii ''**TONE**: Professional'' @ [0x0A] @
     ascii ''**AUDIENCE**: Learners'' @ [0x0A] @
     ascii ''**SPECIAL CONSIDERATIONS**: UI elements,interaction clarity'' @ [0x0A] @
     ascii ''**QUALITY STANDARDS**: Maintain XML structure integrity, preserve spacing, ensure de linguistic accuracy''"

section \<open>The preprocessor normalises white space\<close>

lemma noWhitespaceRun_Cons_nonws:
  "\<not> isWhiteSpace c \<Longrightarrow> noWhitespaceRun (c # xs) = noWhitespaceRun xs"
  by (cases xs) simp_all

lemma noWhitespaceRun_Cons_ws:
  "isWhiteSpace c \<Longrightarrow> noWhitespaceRun (c # xs) = (noWhitespaceRun xs \<and> (xs = [] \<or> \<not> isWhiteSpace (hd xs)))"
  by (cases xs) auto

lemma dropWhile_ws_head: "dropWhile isWhiteSpace cs = [] \<or> \<not> isWhiteSpace (hd (dropWhile isWhiteSpace cs))"
  using hd_dropWhile by blast

lemma replaceWhitespaceRuns_hd:
  "xs \<noteq> [] \<Longrightarrow> \<not> isWhiteSpace (hd xs) \<Longrightarrow>
     replaceWhitespaceRuns xs \<noteq> [] \<and> hd (replaceWhitespaceRuns xs) = hd xs"
  by (cases xs) simp_all

lemma space_is_ws: "isWhiteSpace 0x20"
  by (simp add: isWhiteSpace_def)

lemma noWhitespaceRun_replace: "noWhitespaceRun (replaceWhitespaceRuns s)"
proof (induction s rule: replaceWhitespaceRuns.induct)
  case 1
  show ?case by simp
next
  case (2 c cs)
  show ?case
  proof (cases "isWhiteSpace c")
    case True
    let ?d = "dropWhile isWhiteSpace cs"
    have ih: "noWhitespaceRun (replaceWhitespaceRuns ?d)" using 2(1) True by simp
    have "replaceWhitespaceRuns ?d = [] \<or> \<not> isWhiteSpace (hd (replaceWhitespaceRuns ?d))"
    proof (cases "?d = []")
      case True
      then have "replaceWhitespaceRuns ?d = []" by (simp only: replaceWhitespaceRuns.simps)
      then show ?thesis ..
    next
      case False
      then have "\<not> isWhiteSpace (hd ?d)" using dropWhile_ws_head[of cs] by blast
      with False show ?thesis using replaceWhitespaceRuns_hd[of ?d] by metis
    qed
    with ih True show ?thesis
      by (simp add: noWhitespaceRun_Cons_ws space_is_ws)
  next
    case False
    with 2(2) show ?thesis by (simp add: noWhitespaceRun_Cons_nonws)
  qed
qed

lemma replace_ws_only_space:
  "c \<in> set (replaceWhitespaceRuns s) \<Longrightarrow> c = 0x20 \<or> c \<in> set s \<and> \<not> isWhiteSpace c"
proof (induction s rule: replaceWhitespaceRuns.induct)
  case 1
  then show ?case by simp
next
  case (2 d cs)
  show ?case
  proof (cases "isWhiteSpace d")
    case True
    with 2 show ?thesis by (auto dest: set_dropWhileD)
  next
    case False
    with 2 show ?thesis by auto
  qed
qed

lemma noWhitespaceRun_append:
  "noWhitespaceRun (xs @ ys) \<longleftrightarrow>
     noWhitespaceRun xs \<and> noWhitespaceRun ys \<and>
     (xs = [] \<or> ys = [] \<or> \<not> (isWhiteSpace (last xs) \<and> isWhiteSpace (hd ys)))"
proof (induction xs rule: noWhitespaceRun.induct)
  case (1 a b cs)
  then show ?case by auto
next
  case "2_1"
  then show ?case by simp
next
  case "2_2"
  then show ?case by (cases ys) auto
qed

lemma noWhitespaceRun_rev: "noWhitespaceRun (rev xs) = noWhitespaceRun xs"
proof (induction xs)
  case Nil
  show ?case by simp
next
  case (Cons a xs)
  have "noWhitespaceRun (a # xs) = noWhitespaceRun ([a] @ xs)" by simp
  also have "\<dots> = (noWhitespaceRun xs \<and> (xs = [] \<or> \<not> (isWhiteSpace a \<and> isWhiteSpace (hd xs))))"
    unfolding noWhitespaceRun_append by simp
  finally show ?case using Cons
    by (auto simp: noWhitespaceRun_append last_rev)
qed

lemma noWhitespaceRun_dropWhile:
  "noWhitespaceRun xs \<Longrightarrow> noWhitespaceRun (dropWhile P xs)"
proof -
  assume a: "noWhitespaceRun xs"
  have "noWhitespaceRun (takeWhile P xs @ dropWhile P xs)" using a by simp
  then show ?thesis unfolding noWhitespaceRun_append by simp
qed

lemma noWhitespaceRun_trim: "noWhitespaceRun xs \<Longrightarrow> noWhitespaceRun (trim xs)"
  by (simp add: trim_def noWhitespaceRun_rev noWhitespaceRun_dropWhile)

lemma trim_ends:
  "trim t = [] \<or> (\<not> isWhiteSpace (hd (trim t)) \<and> \<not> isWhiteSpace (last (trim t)))"
proof (cases "trim t = []")
  case True
  then show ?thesis by simp
next
  case False
  let ?d = "dropWhile isWhiteSpace t"
  let ?e = "dropWhile isWhiteSpace (rev ?d)"
  have e: "?e \<noteq> []" using False by (simp add: trim_def)
  then have he: "\<not> isWhiteSpace (hd ?e)" using hd_dropWhile by blast
  have d: "?d \<noteq> []"
  proof
    assume "?d = []"
    then have "?e = []" by (simp only: rev.simps dropWhile.simps)
    with e show False ..
  qed
  then have hd: "\<not> isWhiteSpace (hd ?d)" using hd_dropWhile by blast
  have "rev ?d = takeWhile isWhiteSpace (rev ?d) @ ?e" by simp
  then have "last (rev ?d) = last ?e" using e by (metis last_appendR)
  then have "last ?e = hd ?d" using d by (simp add: last_rev)
  then have "hd (trim t) = hd ?d" using e by (simp add: trim_def hd_rev)
  moreover have "last (trim t) = hd ?e" using e by (simp add: trim_def last_rev)
  ultimately show ?thesis using he hd by simp
qed

lemma set_trim: "set (trim t) \<subseteq> set t"
  unfolding trim_def by (auto dest!: set_dropWhileD)

lemma dropWhile_id: "xs = [] \<or> \<not> P (hd xs) \<Longrightarrow> dropWhile P xs = xs"
  by (cases xs) auto

lemma trim_all_ws: "\<forall>c\<in>set t. isWhiteSpace c \<Longrightarrow> trim t = []"
proof -
  assume "\<forall>c\<in>set t. isWhiteSpace c"
  then have "dropWhile isWhiteSpace t = []" by simp
  then show ?thesis unfolding trim_def by (simp only: rev.simps dropWhile.simps)
qed

lemma trim_fixed:
  "t = [] \<or> (\<not> isWhiteSpace (hd t) \<and> \<not> isWhiteSpace (last t)) \<Longrightarrow> trim t = t"
proof (cases t)
  case Nil
  then show ?thesis by (simp add: trim_def)
next
  case (Cons a as)
  assume "t = [] \<or> (\<not> isWhiteSpace (hd t) \<and> \<not> isWhiteSpace (last t))"
  with Cons have h: "\<not> isWhiteSpace a" and l: "\<not> isWhiteSpace (last t)" by auto
  have 1: "dropWhile isWhiteSpace t = t" using Cons h by simp
  have "hd (rev t) = last t" using Cons by (simp add: hd_rev)
  then have "dropWhile isWhiteSpace (rev t) = rev t" using l
    by (intro dropWhile_id) simp
  with 1 show ?thesis by (simp add: trim_def)
qed

lemma replace_fixed:
  "noWhitespaceRun t \<Longrightarrow> \<forall>c\<in>set t. isWhiteSpace c \<longrightarrow> c = 0x20 \<Longrightarrow> replaceWhitespaceRuns t = t"
proof (induction t rule: replaceWhitespaceRuns.induct)
  case 1
  show ?case by simp
next
  case (2 c cs)
  show ?case
  proof (cases "isWhiteSpace c")
    case True
    then have c: "c = 0x20" using 2(4) by simp
    have nr: "noWhitespaceRun cs" and h: "cs = [] \<or> \<not> isWhiteSpace (hd cs)"
      using 2(3) True by (simp_all add: noWhitespaceRun_Cons_ws)
    have d: "dropWhile isWhiteSpace cs = cs" using h by (rule dropWhile_id)
    have "replaceWhitespaceRuns (dropWhile isWhiteSpace cs) = dropWhile isWhiteSpace cs"
      using 2(1)[OF True] nr 2(4) d by simp
    with True c d show ?thesis by simp
  next
    case False
    then have "noWhitespaceRun cs" using 2(3) by (simp add: noWhitespaceRun_Cons_nonws)
    with 2(2)[OF False] 2(4) False show ?thesis by simp
  qed
qed

lemma noWhitespaceRun_nth:
  "noWhitespaceRun r \<longleftrightarrow> (\<forall>i. Suc i < length r \<longrightarrow> \<not> (isWhiteSpace (r ! i) \<and> isWhiteSpace (r ! Suc i)))"
proof (induction r rule: noWhitespaceRun.induct)
  case (1 a b cs)
  show ?case
  proof
    assume l: "noWhitespaceRun (a # b # cs)"
    show "\<forall>i. Suc i < length (a # b # cs) \<longrightarrow> \<not> (isWhiteSpace ((a # b # cs) ! i) \<and> isWhiteSpace ((a # b # cs) ! Suc i))"
    proof (intro allI impI)
      fix i assume "Suc i < length (a # b # cs)"
      then show "\<not> (isWhiteSpace ((a # b # cs) ! i) \<and> isWhiteSpace ((a # b # cs) ! Suc i))"
        using l 1 by (cases i) auto
    qed
  next
    assume r: "\<forall>i. Suc i < length (a # b # cs) \<longrightarrow> \<not> (isWhiteSpace ((a # b # cs) ! i) \<and> isWhiteSpace ((a # b # cs) ! Suc i))"
    then have "\<not> (isWhiteSpace a \<and> isWhiteSpace b)" by (auto dest: spec[of _ 0])
    moreover have "\<forall>i. Suc i < length (b # cs) \<longrightarrow> \<not> (isWhiteSpace ((b # cs) ! i) \<and> isWhiteSpace ((b # cs) ! Suc i))"
      using r by (auto dest: spec[of _ "Suc i" for i])
    ultimately show "noWhitespaceRun (a # b # cs)" using 1 by simp
  qed
qed simp_all


lemma preprocess_string: "preprocessTextForTranslation (JStr s) i = Inr (trim (replaceWhitespaceRuns s))"
  by (simp add: preprocessTextForTranslation_def Let_def)

lemma cleaned_only_space:
  "c \<in> set (trim (replaceWhitespaceRuns s)) \<Longrightarrow> isWhiteSpace c \<Longrightarrow> c = 0x20"
  using set_trim[of "replaceWhitespaceRuns s"] replace_ws_only_space[of c s] by auto

lemma replace_all_ws:
  "\<forall>c\<in>set s. isWhiteSpace c \<Longrightarrow> \<forall>c\<in>set (replaceWhitespaceRuns s). isWhiteSpace c"
  using replace_ws_only_space space_is_ws by blast

text \<open>The cleaned string is a fixed point of the replacement and of \<open>trim\<close>.\<close>

lemma cleaned_fixed:
  "trim (replaceWhitespaceRuns (trim (replaceWhitespaceRuns s))) = trim (replaceWhitespaceRuns s)"
proof -
  let ?t = "trim (replaceWhitespaceRuns s)"
  have "noWhitespaceRun ?t"
    by (simp add: noWhitespaceRun_trim noWhitespaceRun_replace)
  moreover have "\<forall>c\<in>set ?t. isWhiteSpace c \<longrightarrow> c = 0x20"
    using cleaned_only_space by blast
  ultimately have "replaceWhitespaceRuns ?t = ?t" by (rule replace_fixed)
  moreover have "trim ?t = ?t"
    using trim_ends[of "replaceWhitespaceRuns s"] by (intro trim_fixed) blast
  ultimately show ?thesis by simp
qed

text \<open>
  Claim C7. For every input string, \<open>preprocessTextForTranslation\<close> returns a string
  that is empty or has no white space at either end, in which no two neighbouring code
  units are both white space, and which is empty when the input is empty or consists of
  white space only.
\<close>

theorem preprocess_normalised:
  "\<exists>r. preprocessTextForTranslation (JStr s) i = Inr r \<and>
       (r \<noteq> [] \<longrightarrow> \<not> isWhiteSpace (hd r) \<and> \<not> isWhiteSpace (last r)) \<and>
       (\<forall>k. Suc k < length r \<longrightarrow> \<not> (isWhiteSpace (r ! k) \<and> isWhiteSpace (r ! Suc k))) \<and>
       ((\<forall>c\<in>set s. isWhiteSpace c) \<longrightarrow> r = [])"
proof -
  let ?r = "trim (replaceWhitespaceRuns s)"
  have 1: "preprocessTextForTranslation (JStr s) i = Inr ?r" by (rule preprocess_string)
  have 2: "?r \<noteq> [] \<longrightarrow> \<not> isWhiteSpace (hd ?r) \<and> \<not> isWhiteSpace (last ?r)"
    using trim_ends[of "replaceWhitespaceRuns s"] by blast
  have "noWhitespaceRun ?r" by (simp add: noWhitespaceRun_trim noWhitespaceRun_replace)
  then have 3: "\<forall>k. Suc k < length ?r \<longrightarrow> \<not> (isWhiteSpace (?r ! k) \<and> isWhiteSpace (?r ! Suc k))"
    by (simp only: noWhitespaceRun_nth)
  have 4: "(\<forall>c\<in>set s. isWhiteSpace c) \<longrightarrow> ?r = []"
    using replace_all_ws[of s] trim_all_ws[of "replaceWhitespaceRuns s"] by blast
  from 1 2 3 4 show ?thesis by blast
qed

theorem preprocess_normalised_witness:
  "preprocessTextForTranslation (JStr [0x20, 0x09, 0x3000]) 0 = Inr [] \<and>
   (\<exists>r. preprocessTextForTranslation (JStr (ascii '' a   b '')) 0 = Inr r \<and> r \<noteq> [] \<and>
        Suc 1 < length r \<and> \<not> isWhiteSpace (hd r) \<and> \<not> isWhiteSpace (last r) \<and>
        \<not> (isWhiteSpace (r ! 1) \<and> isWhiteSpace (r ! Suc 1)))"
proof -
  have ws: "\<forall>c\<in>set [0x20, 0x09, 0x3000 :: jschar]. isWhiteSpace c"
    by (simp add: isWhiteSpace_def)
  from preprocess_normalised[of "[0x20, 0x09, 0x3000]" 0] ws
  have a: "preprocessTextForTranslation (JStr [0x20, 0x09, 0x3000]) 0 = Inr []" by blast
  obtain r where r: "preprocessTextForTranslation (JStr (ascii '' a   b '')) 0 = Inr r"
    and e: "r \<noteq> [] \<longrightarrow> \<not> isWhiteSpace (hd r) \<and> \<not> isWhiteSpace (last r)"
    and n: "\<forall>k. Suc k < length r \<longrightarrow> \<not> (isWhiteSpace (r ! k) \<and> isWhiteSpace (r ! Suc k))"
    using preprocess_normalised[of "ascii '' a   b ''" 0] by blast
  have "preprocessTextForTranslation (JStr (ascii '' a   b '')) 0 = Inr (ascii ''a b'')"
    by (simp add: preprocessTextForTranslation_def ascii_def trim_def isWhiteSpace_def)
  with r have v: "r = ascii ''a b''" by simp
  then have l: "r \<noteq> [] \<and> Suc 1 < length r" by (simp add: ascii_def)
  with e n r show ?thesis using a by blast
qed

text \<open>
  Claim C8. \<open>preprocessTextForTranslation\<close> is idempotent: applied to its own result
  (at any index) it returns that result again.
\<close>

theorem preprocess_idempotent:
  "\<exists>r. preprocessTextForTranslation (JStr s) i = Inr r \<and>
       preprocessTextForTranslation (JStr r) j = Inr r"
  by (simp add: preprocess_string cleaned_fixed)


section \<open>The translation pipeline: validation, fallback and success\<close>

lemma preprocess_nonstring: "\<not> isStr t \<Longrightarrow> preprocessTextForTranslation t i = Inl TypeError"
  by (cases t) (simp_all add: preprocessTextForTranslation_def)

lemma preprocessAll_strings:
  "preprocessAll (map JStr texts) i = Inr (map (\<lambda>s. trim (replaceWhitespaceRuns s)) texts)"
  by (induction texts arbitrary: i) (simp_all add: preprocess_string)

lemma preprocessAll_nonstring:
  "\<exists>t\<in>set texts. \<not> isStr t \<Longrightarrow> preprocessAll texts i = Inl TypeError"
proof (induction texts arbitrary: i)
  case Nil
  then show ?case by simp
next
  case (Cons t texts)
  show ?case
  proof (cases "isStr t")
    case True
    then obtain s where s: "t = JStr s" by (cases t) auto
    with Cons.prems have "\<exists>t\<in>set texts. \<not> isStr t" by simp
    then have "preprocessAll texts (Suc i) = Inl TypeError" by (rule Cons.IH)
    with s show ?thesis by (simp add: preprocess_string)
  next
    case False
    then show ?thesis by (simp add: preprocess_nonstring)
  qed
qed

lemma unat_digitChar: "d < 10 \<Longrightarrow> unat (digitChar d) = 48 + d"
proof -
  assume d: "d < 10"
  have "unat (of_nat (48 + d) :: 16 word) = (48 + d) mod 2 ^ LENGTH(16)"
    by (rule unat_of_nat)
  with d show ?thesis unfolding digitChar_def by simp
qed

lemma decimalValue_decimal: "decimalValue (decimal n) = n"
proof (induction n rule: decimal.induct)
  case (1 n)
  show ?case
  proof (cases "n < 10")
    case True
    then show ?thesis
      by (subst decimal.simps) (simp add: decimalValue_def unat_digitChar)
  next
    case False
    then have ih: "decimalValue (decimal (n div 10)) = n div 10" using 1 by simp
    have "decimalValue (decimal n) = 10 * decimalValue (decimal (n div 10)) + (unat (digitChar (n mod 10)) - 48)"
      using False by (subst decimal.simps) (simp add: decimalValue_def)
    also have "\<dots> = 10 * (n div 10) + n mod 10"
      by (simp add: ih unat_digitChar)
    finally show ?thesis by simp
  qed
qed

text \<open>Different indices have different keys.\<close>

lemma decimal_inj: "decimal m = decimal n \<Longrightarrow> m = n"
  by (metis decimalValue_decimal)

lemma setProperty_new: "k \<notin> fst ` set ps \<Longrightarrow> setProperty k v ps = ps @ [(k, v)]"
  by (induction ps) auto

lemma ascii_eq_Nil: "ascii s = [] \<longleftrightarrow> s = []"
  by (simp add: ascii_def)

lemma trim_empty: "trim [] = []"
  by (simp add: trim_def)

text \<open>
  Case mappings outside Basic Latin: two Cyrillic letters, U+00DF with a ligature, and the
  surrogate pair of U+10428; the dotted capital I and the Kelvin sign.
\<close>

lemma case_mapping_samples:
  "toUpperCase (ascii ''pt-br'') = ascii ''PT-BR'' \<and>
   toUpperCase [0x0440, 0x0443] = [0x0420, 0x0423] \<and>
   toUpperCase [0xDF, 0xFB03] = ascii ''SSFFI'' \<and>
   toUpperCase [0xD801, 0xDC28] = [0xD801, 0xDC00] \<and>
   toLowerCase [0x0130, 0x212A, 0x50] = [0x69, 0x0307, 0x6B, 0x70]"
  by code_simp

lemma fallbackFor_strings:
  "fallbackFor text i (Some (JStr lang)) (map_option JStr ctx) =
     Inr (if trim text = [] then [] else placeholder (claimedToken lang ctx) i)"
proof (cases ctx)
  case None
  then show ?thesis
    by (auto simp: fallbackFor_def claimedToken_def toLowerCase_def ascii_eq_Nil trim_empty)
next
  case (Some c)
  show ?thesis
  proof (cases "c = []")
    case True
    with Some show ?thesis
      by (auto simp: fallbackFor_def claimedToken_def toLowerCase_def ascii_eq_Nil trim_empty)
  next
    case False
    with Some show ?thesis
      by (auto simp: fallbackFor_def claimedToken_def trim_empty)
  qed
qed


text \<open>
  On strings the loop stores one entry per text, in the order of the indices: the key of
  an index is new to the object built from the indices before it.
\<close>

lemma fallbackLoop_strings:
  "map fst acc = map decimal [0..<k] \<Longrightarrow>
   fallbackLoop texts k (Some (JStr lang)) (map_option JStr ctx) acc =
     Inr (acc @ map (\<lambda>j. (decimal (k + j),
                         JStr (if trim (texts ! j) = [] then []
                               else placeholder (claimedToken lang ctx) (k + j))))
                [0..<length texts])"
proof (induction texts arbitrary: k acc)
  case Nil
  show ?case by simp
next
  case (Cons t texts)
  let ?v = "JStr (if trim t = [] then [] else placeholder (claimedToken lang ctx) k)"
  have "decimal k \<notin> decimal ` {0..<k}" using decimal_inj by fastforce
  then have "decimal k \<notin> fst ` set acc"
    using Cons.prems by (metis list.set_map set_upt)
  then have sp: "setProperty (decimal k) ?v acc = acc @ [(decimal k, ?v)]"
    by (rule setProperty_new)
  have keys: "map fst (acc @ [(decimal k, ?v)]) = map decimal [0..<Suc k]"
    using Cons.prems by simp
  have shift: "map (\<lambda>j. (decimal (k + j),
                         JStr (if trim ((t # texts) ! j) = [] then []
                               else placeholder (claimedToken lang ctx) (k + j))))
                 [0..<length (t # texts)] =
               (decimal k, ?v) #
               map (\<lambda>j. (decimal (Suc k + j),
                         JStr (if trim (texts ! j) = [] then []
                               else placeholder (claimedToken lang ctx) (Suc k + j))))
                 [0..<length texts]"
    by (simp add: map_upt_Suc del: upt_Suc)
  show ?case
    unfolding shift
    by (simp add: fallbackFor_strings sp Cons.IH[OF keys])
qed

lemma generateContextualFallbacks_strings:
  "generateContextualFallbacks texts (Some (JStr lang)) (map_option JStr ctx) =
     Inr (JObj (map (\<lambda>j. (decimal j,
                          JStr (if trim (texts ! j) = [] then []
                                else placeholder (claimedToken lang ctx) j)))
                 [0..<length texts]))"
  using fallbackLoop_strings[of "[]" 0 texts lang ctx]
  by (simp add: generateContextualFallbacks_def)

lemma translateWithClaude_result:
  "translateWithClaude up ts sl lg ctx = Inr t \<Longrightarrow> \<exists>n. objectKeysLength t = Inr n"
  by (auto simp: translateWithClaude_def split: sum.splits if_splits)

lemma isPlaceholder_placeholder: "isPlaceholder i (placeholder token i)"
  by (simp add: isPlaceholder_def placeholder_def Let_def ascii_def)

text \<open>\<open>isPlaceholder\<close> is the pattern: some token between the bracket and the index.\<close>

lemma isPlaceholder_iff: "isPlaceholder i v \<longleftrightarrow> (\<exists>token. v = placeholder token i)"
proof
  assume p: "isPlaceholder i v"
  let ?tail = "ascii ''_'' @ decimal i @ ascii '']''"
  from p have h: "take 1 v = ascii ''[''" and l: "length ?tail < length v"
    and d: "drop (length v - length ?tail) v = ?tail"
    by (simp_all add: isPlaceholder_def Let_def)
  define pre where "pre = take (length v - length ?tail) v"
  have v: "v = pre @ ?tail" unfolding pre_def using d by (metis append_take_drop_id)
  have "1 \<le> length v - length ?tail" using l by linarith
  then have "min 1 (length v - length ?tail) = 1" by simp
  then have "take 1 pre = take 1 v" unfolding pre_def by (simp only: take_take)
  then have "pre = ascii ''['' @ drop 1 pre" using h by (metis append_take_drop_id)
  then have "v = (ascii ''['' @ drop 1 pre) @ ?tail" using v by metis
  then have "v = placeholder (drop 1 pre) i" by (simp only: placeholder_def append_assoc)
  then show "\<exists>token. v = placeholder token i" ..
next
  assume "\<exists>token. v = placeholder token i"
  then show "isPlaceholder i v" using isPlaceholder_placeholder by blast
qed

text \<open>The conversions only throw a TypeError, and not on a string or a number.\<close>

lemma interpolate_error: "interpolate v = Inl e \<Longrightarrow> e = TypeError"
  by (auto simp: interpolate_def split: option.splits if_splits)

lemma chunkInfo_error: "chunkInfo a b = Inl e \<Longrightarrow> e = TypeError"
  by (auto simp: chunkInfo_def split: sum.splits dest: interpolate_error)

lemma logContextLength_error: "logContextLength c = Inl e \<Longrightarrow> e = TypeError"
  by (auto simp: logContextLength_def split: option.splits if_splits dest: interpolate_error)

lemma chunkInfo_convertible:
  "convertible (withDefault a (JNum 0)) \<Longrightarrow> convertible (withDefault b (JNum 1)) \<Longrightarrow>
   chunkInfo a b = Inr ()"
  by (simp add: chunkInfo_def interpolate_def)

lemma logContextLength_string: "logContextLength (map_option JStr ctx) = Inr ()"
  by (cases ctx) (simp_all add: logContextLength_def interpolate_def)

text \<open>
  Claim C10. The validation of \<open>processTranslation\<close> does not look at the elements of
  \<open>chunkTexts\<close>: whenever a request passes it (a non-empty array, a truthy \<open>targetLang\<close>)
  and some element is not a string, the result is a TypeError, that of the preprocessing
  step unless a log before it has thrown one already, which is not an error of the
  validation, whatever the remote model would have answered: it is raised before the
  \<open>try\<close> and no fallback runs.
\<close>

theorem nonstring_chunk_escapes:
  assumes "chunkTexts req = Some (JArr texts)" and "texts \<noteq> []"
    and "truthy (targetLang req)" and "\<exists>t\<in>set texts. \<not> isStr t"
  shows "processTranslation up req = Inl TypeError"
proof -
  have p: "preprocessAll texts 0 = Inl TypeError"
    using assms(4) by (rule preprocessAll_nonstring)
  show ?thesis
    using assms(1-3) p
    by (auto simp: processTranslation_def split: sum.splits
             dest: chunkInfo_error logContextLength_error)
qed

text \<open>
  Two such requests, one with \<open>null\<close> after a string and a failing remote model, one with
  a number and a remote model that would answer.
\<close>

theorem nonstring_chunk_escapes_witness:
  "processTranslation \<lparr> apiKey = None, reply = Inl (Error ''fetch failed'') \<rparr>
     \<lparr> chunkTexts = Some (JArr [JStr (ascii ''ok''), JNull]), chunkIndex = None, totalChunks = None,
       sourceLang = None, targetLang = Some (JStr (ascii ''fr'')), translationContext = None,
       sourceContent = None \<rparr> = Inl TypeError \<and>
   processTranslation \<lparr> apiKey = Some (ascii ''key''), reply = Inr (JObj [(ascii ''0'', JStr (ascii ''sept''))]) \<rparr>
     \<lparr> chunkTexts = Some (JArr [JNum 7]), chunkIndex = None, totalChunks = None,
       sourceLang = None, targetLang = Some (JStr (ascii ''fr'')), translationContext = None,
       sourceContent = None \<rparr> = Inl TypeError"
proof -
  have t: "truthy (Some (JStr (ascii ''fr'')))" by (simp add: ascii_def)
  show ?thesis
    using nonstring_chunk_escapes[where texts = "[JStr (ascii ''ok''), JNull]"]
      nonstring_chunk_escapes[where texts = "[JNum 7]"] t
    by simp
qed

text \<open>
  Claim C2 as stated fails. The first request below passes the validation (its
  \<open>targetLang\<close> is the truthy number 5), the remote call fails, and the fallback throws
  the TypeError of \<open>targetLang.toUpperCase()\<close>, so that no response with \<open>success: true\<close>
  is returned. The second one passes the validation with a \<open>chunkIndex\<close> that has a member
  named \<open>toString\<close>: the log after the validation throws on \<open>chunkIndex + 1\<close>, under a
  remote model that would answer.
\<close>

theorem success_surfaced_counterexample:
  "truthy (Some (JNum 5)) \<and>
   processTranslation \<lparr> apiKey = None, reply = Inl (Error ''fetch failed'') \<rparr>
     \<lparr> chunkTexts = Some (JArr [JStr (ascii ''Hello'')]), chunkIndex = None, totalChunks = None,
       sourceLang = None, targetLang = Some (JNum 5), translationContext = None,
       sourceContent = None \<rparr> = Inl TypeError \<and>
   processTranslation \<lparr> apiKey = Some (ascii ''key''), reply = Inr (JObj [(ascii ''0'', JStr (ascii ''Bonjour''))]) \<rparr>
     \<lparr> chunkTexts = Some (JArr [JStr (ascii ''Hello'')]),
       chunkIndex = Some (JObj [(ascii ''toString'', JNum 1)]), totalChunks = None,
       sourceLang = None, targetLang = Some (JStr (ascii ''fr'')), translationContext = None,
       sourceContent = None \<rparr> = Inl TypeError"
  by code_simp

text \<open>
  Claim C2, amended. For every request that passes the validation and whose
  \<open>chunkTexts\<close> are strings, whose \<open>targetLang\<close> is a string, whose
  \<open>translationContext\<close> is absent or a string and whose \<open>chunkIndex\<close> and \<open>totalChunks\<close>,
  where given, can be converted to a string (any value but an object with a member named
  \<open>toString\<close>, or an array that holds one), \<open>processTranslation\<close> returns a response with
  \<open>success\<close> true, whether the remote translation succeeds or fails.
\<close>

theorem success_on_string_requests:
  assumes "chunkTexts req = Some (JArr (map JStr texts))" and "texts \<noteq> []"
    and "targetLang req = Some (JStr lang)" and "lang \<noteq> []"
    and "translationContext req = map_option JStr ctx"
    and "convertible (withDefault (chunkIndex req) (JNum 0))"
    and "convertible (withDefault (totalChunks req) (JNum 1))"
  shows "\<exists>r. processTranslation up req = Inr r \<and> success r"
proof (cases "translateWithClaude up (map (\<lambda>s. trim (replaceWhitespaceRuns s)) texts)
                (Some (withDefault (sourceLang req) (JStr (ascii ''en''))))
                (Some (JStr lang)) (map_option JStr ctx)")
  case (Inl e)
  with assms show ?thesis
    by (simp add: processTranslation_def preprocessAll_strings generateContextualFallbacks_strings
        chunkInfo_convertible logContextLength_string)
next
  case (Inr t)
  then obtain n where "objectKeysLength t = Inr n" using translateWithClaude_result by blast
  with Inr assms show ?thesis
    by (simp add: processTranslation_def preprocessAll_strings
        chunkInfo_convertible logContextLength_string)
qed

text \<open>
  One request, once with a remote model that answers and once with none.
\<close>

theorem success_on_string_requests_witness:
  "(\<exists>r. processTranslation \<lparr> apiKey = Some (ascii ''key''), reply = Inr (JObj [(ascii ''0'', JStr (ascii ''Bonjour''))]) \<rparr>
         \<lparr> chunkTexts = Some (JArr (map JStr [ascii ''Hello''])), chunkIndex = Some (JNum 2),
           totalChunks = Some (JStr (ascii ''5'')),
           sourceLang = None, targetLang = Some (JStr (ascii ''fr'')), translationContext = map_option JStr None,
           sourceContent = None \<rparr> = Inr r \<and> success r) \<and>
   (\<exists>r. processTranslation \<lparr> apiKey = None, reply = Inl (Error ''fetch failed'') \<rparr>
         \<lparr> chunkTexts = Some (JArr (map JStr [ascii ''Hello''])), chunkIndex = Some (JNum 2),
           totalChunks = Some (JStr (ascii ''5'')),
           sourceLang = None, targetLang = Some (JStr (ascii ''fr'')), translationContext = map_option JStr None,
           sourceContent = None \<rparr> = Inr r \<and> success r)"
proof -
  have l: "ascii ''fr'' \<noteq> []" and t: "[ascii ''Hello''] \<noteq> []" by (simp_all add: ascii_def)
  show ?thesis
    by (intro conjI success_on_string_requests[where texts = "[ascii ''Hello'']" and lang = "ascii ''fr''" and ctx = None])
       (simp_all add: l)
qed

lemma trim_trim: "trim (trim x) = trim x"
  using trim_ends[of x] by (intro trim_fixed) blast

text \<open>
  When the remote call fails, the response carries the mapping of the fallback
  synthesizer for the preprocessed texts.
\<close>

lemma processTranslation_fallback:
  assumes "chunkTexts req = Some (JArr (map JStr texts))" and "texts \<noteq> []"
    and "targetLang req = Some (JStr lang)" and "lang \<noteq> []"
    and "translationContext req = map_option JStr ctx"
    and "convertible (withDefault (chunkIndex req) (JNum 0))"
    and "convertible (withDefault (totalChunks req) (JNum 1))"
    and "isl (translateWithClaude up (map (\<lambda>s. trim (replaceWhitespaceRuns s)) texts)
               (Some (withDefault (sourceLang req) (JStr (ascii ''en''))))
               (targetLang req) (translationContext req))"
  shows "\<exists>r. processTranslation up req = Inr r \<and>
             response_translations r =
               JObj (map (\<lambda>i. (decimal i,
                               JStr (if trim (replaceWhitespaceRuns (texts ! i)) = [] then []
                                     else placeholder (claimedToken lang ctx) i)))
                      [0..<length texts])"
proof -
  let ?p = "map (\<lambda>s. trim (replaceWhitespaceRuns s)) texts"
  obtain e where e: "translateWithClaude up ?p
       (Some (withDefault (sourceLang req) (JStr (ascii ''en'')))) (Some (JStr lang)) (map_option JStr ctx) = Inl e"
    using assms(8) unfolding assms(3,5) by (auto simp: isl_def)
  have g: "generateContextualFallbacks ?p (Some (JStr lang)) (map_option JStr ctx) =
           Inr (JObj (map (\<lambda>i. (decimal i,
                               JStr (if trim (replaceWhitespaceRuns (texts ! i)) = [] then []
                                     else placeholder (claimedToken lang ctx) i)))
                      [0..<length texts]))"
    by (simp add: generateContextualFallbacks_strings trim_trim)
  show ?thesis
    using assms(1-7) e
    by (simp add: processTranslation_def preprocessAll_strings
        chunkInfo_convertible logContextLength_string g)
qed

text \<open>
  Claim C1 as stated fails. No API key is configured, so that the remote call fails.
  The second text of the first request below is blank, and its value in the mapping is
  the empty string, which does not match the fallback pattern. The second request, valid
  in the sense of the claim, has a text that is not a string, and no mapping is returned
  for it.
\<close>

theorem fallback_mapping_counterexample:
  "isl (translateWithClaude \<lparr> apiKey = None, reply = Inl (Error ''fetch failed'') \<rparr>
          [ascii ''Hello'', []] (Some (JStr (ascii ''en''))) (Some (JStr (ascii ''es'')))
          (Some (JStr (ascii ''Technical manual'')))) \<and>
   map_sum id response_translations
     (processTranslation \<lparr> apiKey = None, reply = Inl (Error ''fetch failed'') \<rparr>
        \<lparr> chunkTexts = Some (JArr [JStr (ascii ''Hello''), JStr (ascii ''  '')]), chunkIndex = None,
          totalChunks = None, sourceLang = None, targetLang = Some (JStr (ascii ''es'')),
          translationContext = Some (JStr (ascii ''Technical manual'')), sourceContent = None \<rparr>) =
     Inr (JObj [(ascii ''0'', JStr (ascii ''[TECHNICAL_ES_0]'')), (ascii ''1'', JStr [])]) \<and>
   \<not> isPlaceholder 1 [] \<and>
   processTranslation \<lparr> apiKey = None, reply = Inl (Error ''fetch failed'') \<rparr>
     \<lparr> chunkTexts = Some (JArr [JBool True]), chunkIndex = None,
       totalChunks = None, sourceLang = None, targetLang = Some (JStr (ascii ''es'')),
       translationContext = None, sourceContent = None \<rparr> = Inl TypeError"
  by code_simp

text \<open>
  Claim C1, amended. For every request that passes the validation, with strings for
  \<open>chunkTexts\<close> and \<open>targetLang\<close>, an absent or string \<open>translationContext\<close>, and a
  \<open>chunkIndex\<close> and a \<open>totalChunks\<close> that, where given, can be converted to a string, and
  for which the call of the remote model fails, in whatever way, the mapping has exactly
  one entry per text, under the keys \<open>"0"\<close> to \<open>"n-1"\<close> in this order; the value at index
  \<open>i\<close> is the empty string when the preprocessed text is empty and matches the fallback
  pattern \<open>[TOKEN_i]\<close> otherwise.
\<close>

theorem fallback_mapping_on_string_requests:
  assumes "chunkTexts req = Some (JArr (map JStr texts))" and "texts \<noteq> []"
    and "targetLang req = Some (JStr lang)" and "lang \<noteq> []"
    and "translationContext req = map_option JStr ctx"
    and "convertible (withDefault (chunkIndex req) (JNum 0))"
    and "convertible (withDefault (totalChunks req) (JNum 1))"
    and "isl (translateWithClaude up (map (\<lambda>s. trim (replaceWhitespaceRuns s)) texts)
               (Some (withDefault (sourceLang req) (JStr (ascii ''en''))))
               (targetLang req) (translationContext req))"
  shows "\<exists>r kvs. processTranslation up req = Inr r \<and> response_translations r = JObj kvs \<and>
           length kvs = length texts \<and>
           map fst kvs = map decimal [0..<length texts] \<and>
           distinct (map fst kvs) \<and>
           (\<forall>i<length texts. \<exists>v. snd (kvs ! i) = JStr v \<and>
              (if trim (replaceWhitespaceRuns (texts ! i)) = [] then v = [] else isPlaceholder i v))"
proof -
  let ?kvs = "map (\<lambda>i. (decimal i,
                        JStr (if trim (replaceWhitespaceRuns (texts ! i)) = [] then []
                              else placeholder (claimedToken lang ctx) i)))
               [0..<length texts]"
  obtain r where r: "processTranslation up req = Inr r" "response_translations r = JObj ?kvs"
    using processTranslation_fallback[OF assms] by blast
  have keys: "map fst ?kvs = map decimal [0..<length texts]" by (simp add: comp_def)
  have "inj_on decimal (set [0..<length texts])" using decimal_inj by (auto intro: inj_onI)
  then have d: "distinct (map decimal [0..<length texts])" by (simp add: distinct_map)
  have v: "\<forall>i<length texts. \<exists>v. snd (?kvs ! i) = JStr v \<and>
              (if trim (replaceWhitespaceRuns (texts ! i)) = [] then v = [] else isPlaceholder i v)"
    by (simp add: isPlaceholder_placeholder)
  have "length ?kvs = length texts" by simp
  with r keys d v show ?thesis by (metis (no_types, lifting))
qed

text \<open>
  A request with one text and one blank text, under a guidance naming PRL, and a remote
  model whose reply parses to \<open>null\<close>.
\<close>

theorem fallback_mapping_on_string_requests_witness:
  "\<exists>r kvs. processTranslation \<lparr> apiKey = Some (ascii ''key''), reply = Inr JNull \<rparr>
            \<lparr> chunkTexts = Some (JArr (map JStr [ascii ''Safety first'', ascii '' ''])), chunkIndex = Some (JNum 1),
              totalChunks = Some (JNum 3), sourceLang = None, targetLang = Some (JStr (ascii ''de'')),
              translationContext = map_option JStr (Some (ascii ''PRL course'')), sourceContent = None \<rparr> = Inr r \<and>
          response_translations r = JObj kvs \<and> length kvs = 2 \<and>
          map fst kvs = [ascii ''0'', ascii ''1''] \<and>
          isPlaceholder 0 (case snd (kvs ! 0) of JStr v \<Rightarrow> v | _ \<Rightarrow> []) \<and>
          snd (kvs ! 1) = JStr []"
proof -
  let ?texts = "[ascii ''Safety first'', ascii '' '']"
  let ?up = "\<lparr> apiKey = Some (ascii ''key''), reply = (Inr JNull :: error + json) \<rparr>"
  let ?req = "\<lparr> chunkTexts = Some (JArr (map JStr ?texts)), chunkIndex = Some (JNum 1),
              totalChunks = Some (JNum 3), sourceLang = None, targetLang = Some (JStr (ascii ''de'')),
              translationContext = map_option JStr (Some (ascii ''PRL course'')), sourceContent = None \<rparr>"
  have f: "isl (translateWithClaude ?up (map (\<lambda>s. trim (replaceWhitespaceRuns s)) ?texts)
               (Some (withDefault (sourceLang ?req) (JStr (ascii ''en''))))
               (targetLang ?req) (translationContext ?req))"
    by (simp add: translateWithClaude_def interpolate_def logContextLength_def
        apiKeyConfigured_def ascii_def)
  have l: "ascii ''de'' \<noteq> []" by (simp add: ascii_def)
  have "\<exists>r kvs. processTranslation ?up ?req = Inr r \<and> response_translations r = JObj kvs \<and>
           length kvs = length ?texts \<and>
           map fst kvs = map decimal [0..<length ?texts] \<and>
           distinct (map fst kvs) \<and>
           (\<forall>i<length ?texts. \<exists>v. snd (kvs ! i) = JStr v \<and>
              (if trim (replaceWhitespaceRuns (?texts ! i)) = [] then v = [] else isPlaceholder i v))"
    by (rule fallback_mapping_on_string_requests[where lang = "ascii ''de''"
          and ctx = "Some (ascii ''PRL course'')", OF _ _ _ l _ _ _ f]) simp_all
  then obtain r kvs where r: "processTranslation ?up ?req = Inr r"
    and k: "response_translations r = JObj kvs" "length kvs = length ?texts"
      "map fst kvs = map decimal [0..<length ?texts]"
    and v: "\<forall>i<length ?texts. \<exists>v. snd (kvs ! i) = JStr v \<and>
              (if trim (replaceWhitespaceRuns (?texts ! i)) = [] then v = [] else isPlaceholder i v)"
    by blast
  have c0: "trim (replaceWhitespaceRuns (?texts ! 0)) \<noteq> []"
    and c1: "trim (replaceWhitespaceRuns (?texts ! 1)) = []"
    by (simp_all add: ascii_def trim_def isWhiteSpace_def)
  from v c0 have v0: "\<exists>v. snd (kvs ! 0) = JStr v \<and> isPlaceholder 0 v" by force
  from v c1 have v1: "snd (kvs ! 1) = JStr []" by force
  have ks: "map decimal [0..<length ?texts] = [ascii ''0'', ascii ''1'']"
    by code_simp
  from r k v0 v1 ks show ?thesis by force
qed

text \<open>
  What the preprocessing step returns are strings that \<open>trim\<close> leaves as they are, so that
  such a text is blank only when it is empty.
\<close>

lemma preprocessAll_trimmed:
  "preprocessAll raw i = Inr texts \<Longrightarrow> \<forall>t\<in>set texts. trim t = t"
proof (induction raw arbitrary: i texts)
  case Nil
  then show ?case by simp
next
  case (Cons r raw)
  from Cons.prems obtain t ts where t: "preprocessTextForTranslation r i = Inr t"
    and ts: "preprocessAll raw (Suc i) = Inr ts" and texts: "texts = t # ts"
    by (auto split: sum.splits)
  from t obtain s where "r = JStr s" "t = trim (replaceWhitespaceRuns s)"
    by (cases r) (auto simp: preprocessTextForTranslation_def Let_def split: if_splits)
  then have "trim t = t" by (simp add: trim_trim)
  with Cons.IH[OF ts] texts show ?case by simp
qed

text \<open>
  Claim C5. Given the texts that the preprocessing step returned for a chunk, as the
  handler gives them, a target language and an absent or string guidance,
  \<open>generateContextualFallbacks\<close> maps every empty text to the empty string and every
  other text at index \<open>i\<close> to \<open>[TOKEN_i]\<close>, with the token of the claim (\<open>claimedToken\<close>);
  and the request \<open>{chunkTexts: ["Hello world", ""], targetLang: "fr"}\<close> for which the
  call of the remote model fails yields the translations
  \<open>{"0": "[FR_TRANSLATION_0]", "1": ""}\<close>.
\<close>

theorem contextual_fallbacks_on_preprocessed:
  assumes "preprocessAll raw 0 = Inr texts"
  shows "generateContextualFallbacks texts (Some (JStr lang)) (map_option JStr ctx) =
           Inr (JObj (map (\<lambda>i. (decimal i,
                                JStr (if texts ! i = [] then []
                                      else placeholder (claimedToken lang ctx) i)))
                       [0..<length texts])) \<and>
         (isl (translateWithClaude up [ascii ''Hello world'', []]
                 (Some (JStr (ascii ''en''))) (Some (JStr (ascii ''fr''))) None) \<longrightarrow>
            (\<exists>r. processTranslation up
                    \<lparr> chunkTexts = Some (JArr [JStr (ascii ''Hello world''), JStr []]), chunkIndex = None,
                      totalChunks = None, sourceLang = None, targetLang = Some (JStr (ascii ''fr'')),
                      translationContext = None, sourceContent = None \<rparr> = Inr r \<and>
                  response_translations r =
                    JObj [(ascii ''0'', JStr (ascii ''[FR_TRANSLATION_0]'')), (ascii ''1'', JStr [])]))"
proof (intro conjI impI)
  have "\<forall>t\<in>set texts. trim t = t" using assms by (rule preprocessAll_trimmed)
  then have "trim (texts ! i) = texts ! i" if "i < length texts" for i
    using that by simp
  then have "map (\<lambda>i. (decimal i,
                        JStr (if trim (texts ! i) = [] then []
                              else placeholder (claimedToken lang ctx) i)))
               [0..<length texts] =
             map (\<lambda>i. (decimal i,
                        JStr (if texts ! i = [] then []
                              else placeholder (claimedToken lang ctx) i)))
               [0..<length texts]"
    by (intro map_cong[OF refl]) simp
  then show "generateContextualFallbacks texts (Some (JStr lang)) (map_option JStr ctx) =
     Inr (JObj (map (\<lambda>i. (decimal i,
                          JStr (if texts ! i = [] then []
                                else placeholder (claimedToken lang ctx) i)))
                 [0..<length texts]))"
    by (simp only: generateContextualFallbacks_strings)
next
  let ?texts = "[ascii ''Hello world'', []]"
  let ?req = "\<lparr> chunkTexts = Some (JArr [JStr (ascii ''Hello world''), JStr []]), chunkIndex = None,
                totalChunks = None, sourceLang = None, targetLang = Some (JStr (ascii ''fr'')),
                translationContext = None, sourceContent = None \<rparr>"
  assume f: "isl (translateWithClaude up ?texts
                 (Some (JStr (ascii ''en''))) (Some (JStr (ascii ''fr''))) None)"
  have p: "map (\<lambda>s. trim (replaceWhitespaceRuns s)) ?texts = ?texts"
    by code_simp
  have f': "isl (translateWithClaude up (map (\<lambda>s. trim (replaceWhitespaceRuns s)) ?texts)
               (Some (withDefault (sourceLang ?req) (JStr (ascii ''en''))))
               (targetLang ?req) (translationContext ?req))"
    unfolding p using f by simp
  have l: "ascii ''fr'' \<noteq> []" by (simp add: ascii_def)
  have "\<exists>r. processTranslation up ?req = Inr r \<and>
             response_translations r =
               JObj (map (\<lambda>i. (decimal i,
                               JStr (if trim (replaceWhitespaceRuns (?texts ! i)) = [] then []
                                     else placeholder (claimedToken (ascii ''fr'') None) i)))
                      [0..<length ?texts])"
    by (rule processTranslation_fallback[where ctx = None, OF _ _ _ l _ _ _ f']) simp_all
  moreover have "map (\<lambda>i. (decimal i,
                               JStr (if trim (replaceWhitespaceRuns (?texts ! i)) = [] then []
                                     else placeholder (claimedToken (ascii ''fr'') None) i)))
                      [0..<length ?texts] =
                 [(ascii ''0'', JStr (ascii ''[FR_TRANSLATION_0]'')), (ascii ''1'', JStr [])]"
    by code_simp
  ultimately show "\<exists>r. processTranslation up ?req = Inr r \<and>
            response_translations r =
              JObj [(ascii ''0'', JStr (ascii ''[FR_TRANSLATION_0]'')), (ascii ''1'', JStr [])]"
    by simp
qed

text \<open>
  Three raw texts, the last one blank, under a guidance that names two keywords, the
  first in the priority order winning; and the scenario under a remote model that
  answers with an error status.
\<close>

theorem contextual_fallbacks_on_preprocessed_witness:
  "preprocessAll [JStr (ascii '' Hello   world''), JStr [], JStr (ascii ''  '')] 0 =
     Inr [ascii ''Hello world'', [], []] \<and>
   generateContextualFallbacks [ascii ''Hello world'', [], []]
     (Some (JStr (ascii ''fr''))) (map_option JStr (Some (ascii ''A Technical and Educational guide''))) =
     Inr (JObj [(ascii ''0'', JStr (ascii ''[TECHNICAL_FR_0]'')), (ascii ''1'', JStr []), (ascii ''2'', JStr [])]) \<and>
   isl (translateWithClaude \<lparr> apiKey = Some (ascii ''key''), reply = Inl (Error ''Claude API error 529'') \<rparr>
          [ascii ''Hello world'', []] (Some (JStr (ascii ''en''))) (Some (JStr (ascii ''fr''))) None) \<and>
   (\<exists>r. processTranslation \<lparr> apiKey = Some (ascii ''key''), reply = Inl (Error ''Claude API error 529'') \<rparr>
              \<lparr> chunkTexts = Some (JArr [JStr (ascii ''Hello world''), JStr []]), chunkIndex = None,
                totalChunks = None, sourceLang = None, targetLang = Some (JStr (ascii ''fr'')),
                translationContext = None, sourceContent = None \<rparr> = Inr r \<and>
            response_translations r =
              JObj [(ascii ''0'', JStr (ascii ''[FR_TRANSLATION_0]'')), (ascii ''1'', JStr [])])"
proof -
  let ?up = "\<lparr> apiKey = Some (ascii ''key''), reply = (Inl (Error ''Claude API error 529'') :: error + json) \<rparr>"
  have p: "preprocessAll [JStr (ascii '' Hello   world''), JStr [], JStr (ascii ''  '')] 0 =
     Inr [ascii ''Hello world'', [], []]"
    by code_simp
  have f: "isl (translateWithClaude ?up [ascii ''Hello world'', []]
                 (Some (JStr (ascii ''en''))) (Some (JStr (ascii ''fr''))) None)"
    by (simp add: translateWithClaude_def interpolate_def logContextLength_def apiKeyConfigured_def
        ascii_def)
  have m: "map (\<lambda>i. (decimal i,
                          JStr (if [ascii ''Hello world'', [], []] ! i = [] then []
                                else placeholder (claimedToken (ascii ''fr'') (Some (ascii ''A Technical and Educational guide''))) i)))
                 [0..<length [ascii ''Hello world'', [], []]] =
           [(ascii ''0'', JStr (ascii ''[TECHNICAL_FR_0]'')), (ascii ''1'', JStr []), (ascii ''2'', JStr [])]"
    by code_simp
  from contextual_fallbacks_on_preprocessed[OF p,
      of "ascii ''fr''" "Some (ascii ''A Technical and Educational guide'')" ?up] p f
  show ?thesis unfolding m by blast
qed

section \<open>The prepared matcher computes the regular expressions\<close>

lemma wordBoundary_prepared:
  "wordBoundary prev s \<longleftrightarrow> wordBefore prev \<noteq> wordAhead (prepared ic s)"
  by (cases s) (simp_all add: wordBoundary_def wordBefore_def prepared_def)

lemma matchLiteral_length: "matchLiteral ic w s = Some rest \<Longrightarrow> length w \<le> length s"
  by (induction ic w s rule: matchLiteral.induct) (auto split: if_splits)

lemma matchPrepared_literal:
  "matchPrepared (map (canonicalize ic) w) before (prepared ic s) =
     (case matchLiteral ic w s of
        None \<Rightarrow> None
      | Some rest \<Rightarrow> Some (if w = [] then before else isWordChar (s ! (length w - 1)), prepared ic rest))"
proof (induction ic w s arbitrary: before rule: matchLiteral.induct)
  case (1 ic s)
  show ?case by simp
next
  case (2 ic p ps)
  show ?case by (simp add: prepared_def)
next
  case (3 ic p ps c cs)
  show ?case
  proof (cases "canonicalize ic p = canonicalize ic c")
    case True
    have "matchPrepared (map (canonicalize ic) (p # ps)) before (prepared ic (c # cs)) =
          matchPrepared (map (canonicalize ic) ps) (isWordChar c) (prepared ic cs)"
      using True by (simp add: prepared_def)
    also have "\<dots> = (case matchLiteral ic ps cs of
        None \<Rightarrow> None
      | Some rest \<Rightarrow> Some (if ps = [] then isWordChar c else isWordChar (cs ! (length ps - 1)), prepared ic rest))"
      using 3 True by simp
    also have "\<dots> = (case matchLiteral ic (p # ps) (c # cs) of
        None \<Rightarrow> None
      | Some rest \<Rightarrow> Some (if p # ps = [] then before else isWordChar ((c # cs) ! (length (p # ps) - 1)), prepared ic rest))"
      using True by (cases ps) (auto split: option.splits)
    finally show ?thesis .
  next
    case False
    then show ?thesis by (simp add: prepared_def)
  qed
qed

lemma matchWordAt_prepared:
  "matchWordAt ic w prev s =
     matchWordPrepared (map (canonicalize ic) w) (wordBefore prev) (prepared ic s)"
proof (cases "matchLiteral ic w s")
  case None
  then show ?thesis
    by (simp add: matchWordAt_def matchWordPrepared_def matchPrepared_literal
        wordBoundary_prepared[of prev s ic])
next
  case (Some rest)
  show ?thesis
  proof (cases "w = []")
    case True
    with Some show ?thesis
      by (simp add: matchWordAt_def matchWordPrepared_def
          wordBoundary_prepared[of prev _ ic])
  next
    case False
    have "wordBoundary (Some (s ! (length w - 1))) rest \<longleftrightarrow>
          isWordChar (s ! (length w - 1)) \<noteq> wordAhead (prepared ic rest)"
      using wordBoundary_prepared[of "Some (s ! (length w - 1))" rest ic]
      by (simp add: wordBefore_def)
    with Some False show ?thesis
      by (simp add: matchWordAt_def matchWordPrepared_def matchPrepared_literal
          wordBoundary_prepared[of prev s ic])
  qed
qed

lemma matchWordAt_length: "matchWordAt ic w prev s \<Longrightarrow> length w \<le> length s"
  by (auto simp: matchWordAt_def split: if_splits option.splits dest: matchLiteral_length)

lemma countFrom_prepared:
  "countFrom w prev s = countPrepared (map (canonicalize True) w) (wordBefore prev) (prepared True s)"
proof (induction w prev s rule: countFrom.induct)
  case (1 w prev)
  show ?case
    using matchWordAt_prepared[of True w prev "[]"] by (simp add: prepared_def)
next
  case (2 w prev c cs)
  let ?x = "(canonicalize True c, isWordChar c)"
  have p: "prepared True (c # cs) = ?x # prepared True cs" by (simp add: prepared_def)
  show ?case
  proof (cases "matchWordAt True w prev (c # cs)")
    case True
    then have len: "length w - 1 < length (c # cs)"
      using matchWordAt_length[of True w prev "c # cs"] by simp
    have m: "matchWordPrepared (map (canonicalize True) w) (wordBefore prev) (?x # prepared True cs)"
      using True matchWordAt_prepared[of True w prev "c # cs"] p by simp
    have n: "snd ((?x # prepared True cs) ! (length w - 1)) = isWordChar ((c # cs) ! (length w - 1))"
      using len p by (metis (no_types, lifting) length_map nth_map prepared_def snd_conv)
    have d: "drop (length w - 1) (prepared True cs) = prepared True (drop (length w - 1) cs)"
      by (simp add: prepared_def drop_map)
    have "countFrom w prev (c # cs) =
          Suc (countFrom w (Some ((c # cs) ! (length w - 1))) (drop (length w - 1) cs))"
      using True by simp
    also have "\<dots> = Suc (countPrepared (map (canonicalize True) w)
                          (isWordChar ((c # cs) ! (length w - 1)))
                          (prepared True (drop (length w - 1) cs)))"
      using 2(1)[OF True] by (simp add: wordBefore_def)
    also have "\<dots> = countPrepared (map (canonicalize True) w) (wordBefore prev) (?x # prepared True cs)"
      using m n d by simp
    finally show ?thesis using p by simp
  next
    case False
    then have m: "\<not> matchWordPrepared (map (canonicalize True) w) (wordBefore prev) (?x # prepared True cs)"
      using matchWordAt_prepared[of True w prev "c # cs"] p by simp
    have "countFrom w prev (c # cs) = countFrom w (Some c) cs" using False by simp
    also have "\<dots> = countPrepared (map (canonicalize True) w) (isWordChar c) (prepared True cs)"
      using 2(2)[OF False] by (simp add: wordBefore_def)
    also have "\<dots> = countPrepared (map (canonicalize True) w) (wordBefore prev) (?x # prepared True cs)"
      using m by simp
    finally show ?thesis using p by simp
  qed
qed

text \<open>The count and the test of the source, on the prepared input.\<close>

lemma matchCount_prepared:
  "matchCount w s = countPrepared (map (canonicalize True) w) False (prepared True s)"
  by (simp add: matchCount_def countFrom_prepared wordBefore_def)

lemma canonicalize_exact: "map (canonicalize False) w = w"
  by (induction w) (simp_all add: canonicalize_def)

lemma testFrom_prepared:
  "testFrom alts prev s = testPrepared alts (wordBefore prev) (prepared False s)"
proof (induction alts prev s rule: testFrom.induct)
  case (1 alts prev)
  show ?case
    using matchWordAt_prepared[of False _ prev "[]"]
    by (simp add: prepared_def canonicalize_exact list_ex_iff)
next
  case (2 alts prev c cs)
  have p: "prepared False (c # cs) = (canonicalize False c, isWordChar c) # prepared False cs"
    by (simp add: prepared_def)
  have e: "list_ex (\<lambda>w. matchWordAt False w prev (c # cs)) alts =
           list_ex (\<lambda>w. matchWordPrepared w (wordBefore prev) (prepared False (c # cs))) alts"
    using matchWordAt_prepared[of False _ prev "c # cs"]
    by (simp add: canonicalize_exact list_ex_iff)
  show ?case
  proof (cases "list_ex (\<lambda>w. matchWordAt False w prev (c # cs)) alts")
    case True
    then show ?thesis using e p by simp
  next
    case False
    then have "testFrom alts prev (c # cs) = testFrom alts (Some c) cs" by simp
    also have "\<dots> = testPrepared alts (isWordChar c) (prepared False cs)"
      using 2[OF False] by (simp add: wordBefore_def)
    finally show ?thesis using False e p by simp
  qed
qed

lemma regexTest_prepared: "regexTest alts s = testPrepared alts False (prepared False s)"
  by (simp add: regexTest_def testFrom_prepared wordBefore_def)

section \<open>Domain detection\<close>

lemma domainKeys_position: "domainKeys ! domainPosition d = d"
  by (cases d) (simp_all add: domainKeys_def)

lemma dominantOf_greatest: "w d \<le> w (dominantOf w)"
  by (cases d) (auto simp: dominantOf_def)

lemma dominantOf_last: "w d = w (dominantOf w) \<Longrightarrow> domainPosition d \<le> domainPosition (dominantOf w)"
  by (cases d) (auto simp: dominantOf_def split: if_splits)

lemma dominantOf_weight:
  "w (dominantOf w) = max (w prl) (max (w technical) (max (w educational) (w corporate)))"
  by (auto simp: dominantOf_def max_def)

lemma dominantOf_zero: "\<forall>d. w d = 0 \<Longrightarrow> dominantOf w = corporate"
  by (simp add: dominantOf_def)

lemma primary_detect:
  "primary (detectContentDomain s) = dominantOf (domainWeight (allContentOf s))"
  by (simp add: detectContentDomain_def Let_def allContentOf_def)

lemma description_detect:
  "description (detectContentDomain s) = domainName (primary (detectContentDomain s))"
  by (simp add: detectContentDomain_def Let_def)

lemma weights_detect:
  "weights (detectContentDomain s) = map (\<lambda>key. (key, domainWeight (allContentOf s) key)) domainKeys"
  by (simp add: detectContentDomain_def Let_def allContentOf_def)

lemma confidence_detect:
  "confidence (detectContentDomain s) =
     confidenceOf (domainWeight (allContentOf s) (dominantOf (domainWeight (allContentOf s)))) (length s)"
  by (simp add: detectContentDomain_def Let_def allContentOf_def)

lemma foldl_weight:
  "foldl (\<lambda>weight keyword. weight + f keyword) a ks = a + (sum_list (map f ks) :: nat)"
  by (induction ks arbitrary: a) simp_all

lemma keywordWeight_sum:
  "keywordWeight content ks = sum_list (map (\<lambda>k. matchCount k content) ks)"
  by (simp add: keywordWeight_def foldl_weight)

lemma domainWeights_prepared:
  "map (domainWeight content) domainKeys =
     (let p = prepared True content
      in map (\<lambda>d. sum_list (map (\<lambda>k. countPrepared (map (canonicalize True) k) False p)
                                (domainKeywords d)))
           domainKeys)"
  by (simp add: domainWeight_def keywordWeight_sum matchCount_prepared Let_def)

lemma domainWeights_by_key:
  "map w domainKeys = [a, b, c, d] \<Longrightarrow>
     w prl = a \<and> w technical = b \<and> w educational = c \<and> w corporate = d"
  by (simp add: domainKeys_def)

lemma weights_ok:
  "map (domainWeight (allContentOf [ascii ''ok''])) domainKeys = [0, 0, 0, 0]"
  by (subst domainWeights_prepared) code_simp

text \<open>
  Claim C3 as stated fails: for the sample \<open>ok\<close> every domain has weight zero, and the
  selected domain is \<open>corporate\<close>, the last of the enumeration order, not \<open>prl\<close>, the
  first.
\<close>

theorem dominant_domain_counterexample:
  "weights (detectContentDomain [ascii ''ok'']) =
     [(prl, 0), (technical, 0), (educational, 0), (corporate, 0)] \<and>
   primary (detectContentDomain [ascii ''ok'']) = corporate \<and> corporate \<noteq> prl"
proof -
  have w: "domainWeight (allContentOf [ascii ''ok'']) d = 0" for d
    using domainWeights_by_key[OF weights_ok] by (cases d) simp_all
  then have "dominantOf (domainWeight (allContentOf [ascii ''ok''])) = corporate"
    by (intro dominantOf_zero) simp
  then show ?thesis
    by (simp only: primary_detect weights_detect w domainKeys_def) simp
qed

text \<open>
  Claim C3, amended. The selected domain has the greatest weight, and among the domains
  of greatest weight it is the last one in the enumeration order prl, technical,
  educational, corporate; when every domain has weight zero it is \<open>corporate\<close>.
\<close>

theorem dominant_domain_last_of_greatest:
  "(\<forall>d. domainWeight (allContentOf samples) d
          \<le> domainWeight (allContentOf samples) (primary (detectContentDomain samples))) \<and>
   (\<forall>d. domainWeight (allContentOf samples) d
          = domainWeight (allContentOf samples) (primary (detectContentDomain samples))
        \<longrightarrow> domainPosition d \<le> domainPosition (primary (detectContentDomain samples))) \<and>
   ((\<forall>d. domainWeight (allContentOf samples) d = 0)
        \<longrightarrow> primary (detectContentDomain samples) = corporate)"
  unfolding primary_detect
  using dominantOf_greatest dominantOf_last dominantOf_zero by blast

lemma weights_api_quiz:
  "map (domainWeight (allContentOf [ascii ''API'', ascii ''quiz''])) domainKeys = [0, 1, 1, 0]"
  by (subst domainWeights_prepared) code_simp

text \<open>
  A tie at weight one between \<open>technical\<close> and \<open>educational\<close>: the later one is selected.
\<close>

theorem dominant_domain_last_of_greatest_witness:
  "domainWeight (allContentOf [ascii ''API'', ascii ''quiz'']) technical = 1 \<and>
   domainWeight (allContentOf [ascii ''API'', ascii ''quiz'']) educational = 1 \<and>
   primary (detectContentDomain [ascii ''API'', ascii ''quiz'']) = educational"
proof -
  define w where "w = domainWeight (allContentOf [ascii ''API'', ascii ''quiz''])"
  define p where "p = primary (detectContentDomain [ascii ''API'', ascii ''quiz''])"
  have w: "w prl = 0" "w technical = 1" "w educational = 1" "w corporate = 0"
    using domainWeights_by_key[OF weights_api_quiz] unfolding w_def by simp_all
  have g: "\<forall>d. w d \<le> w p"
    and l: "\<forall>d. w d = w p \<longrightarrow> domainPosition d \<le> domainPosition p"
    using dominant_domain_last_of_greatest[of "[ascii ''API'', ascii ''quiz'']"]
    unfolding w_def p_def by blast+
  from g have "w educational \<le> w p" by blast
  then have p1: "w p = 1" using w by (cases p) simp_all
  then have "w educational = w p" using w by simp
  then have "domainPosition educational \<le> domainPosition p" using l by blast
  then have "p = educational" using p1 w by (cases p) simp_all
  with w show ?thesis unfolding w_def p_def by simp
qed

lemma matchCount_empty: "w \<noteq> [] \<Longrightarrow> matchCount w [] = 0"
  by (simp add: matchCount_def matchWordAt_def wordBoundary_def)

lemma keywords_nonempty: "list_all (\<lambda>k. k \<noteq> []) allKeywords"
  by code_simp

lemma domainKeywords_all: "set (domainKeywords d) \<subseteq> set allKeywords"
  by (cases d) (auto simp: allKeywords_def domainKeys_def)

lemma domainWeight_empty: "domainWeight [] d = 0"
proof -
  have "\<forall>k\<in>set (domainKeywords d). matchCount k [] = 0"
    using keywords_nonempty domainKeywords_all[of d] matchCount_empty
    by (auto simp: list_all_iff)
  then show ?thesis by (simp add: domainWeight_def keywordWeight_sum)
qed

lemma weight_positive_samples:
  "0 < domainWeight (allContentOf s) d \<Longrightarrow> s \<noteq> []"
  by (auto simp: allContentOf_def toLowerCase_def domainWeight_empty)

lemma ergonomia_sums:
  "sum_list (map (\<lambda>k. if k = ergonomia then 5 else 0) prlKeywords) = (5::nat)"
  "sum_list (map (\<lambda>k. if k = ergonomia then 5 else 0) technicalKeywords) = (0::nat)"
  "sum_list (map (\<lambda>k. if k = ergonomia then 5 else 0) educationalKeywords) = (0::nat)"
  "sum_list (map (\<lambda>k. if k = ergonomia then 5 else 0) corporateKeywords) = (0::nat)"
  by code_simp+

lemma ergonomia_weight:
  assumes "matchCount ergonomia content = 5"
    and "\<forall>k\<in>set allKeywords. k \<noteq> ergonomia \<longrightarrow> matchCount k content = 0"
  shows "domainWeight content d = (if d = prl then 5 else 0)"
proof -
  have e: "matchCount k content = (if k = ergonomia then 5 else 0)"
    if k: "k \<in> set (domainKeywords d)" for k
  proof (cases "k = ergonomia")
    case True
    then show ?thesis using assms(1) by (simp only: refl if_True)
  next
    case False
    have "k \<in> set allKeywords" using k domainKeywords_all[of d] by blast
    then have "matchCount k content = 0" using assms(2) False by blast
    then show ?thesis using False by (simp only: if_False)
  qed
  have "map (\<lambda>k. matchCount k content) (domainKeywords d) =
        map (\<lambda>k. if k = ergonomia then 5 else 0) (domainKeywords d)"
    by (rule map_cong[OF refl]) (rule e)
  then have s: "domainWeight content d =
             sum_list (map (\<lambda>k. if k = ergonomia then 5 else 0) (domainKeywords d))"
    by (simp only: domainWeight_def keywordWeight_sum)
  show ?thesis
  proof (cases d)
    case prl
    then show ?thesis using s ergonomia_sums(1) by (simp only: domainKeywords.simps) simp
  next
    case technical
    then show ?thesis using s ergonomia_sums(2) by (simp only: domainKeywords.simps) simp
  next
    case educational
    then show ?thesis using s ergonomia_sums(3) by (simp only: domainKeywords.simps) simp
  next
    case corporate
    then show ?thesis using s ergonomia_sums(4) by (simp only: domainKeywords.simps) simp
  qed
qed

text \<open>
  Claim C4. The confidence is \<open>min(round(maxWeight / sampleTexts.length * 100), 95)\<close>, in
  the arithmetic of the code, when the greatest domain weight \<open>maxWeight\<close> is positive,
  and 50 when it is zero; when the content holds the word of the claim five times and
  no other keyword, the domain is \<open>prl\<close> and the confidence is
  \<open>min(round(5 / sampleTexts.length * 100), 95)\<close>.
\<close>

theorem confidence_formula:
  "confidence (detectContentDomain samples) =
     (let w = domainWeight (allContentOf samples);
          maxWeight = max (w prl) (max (w technical) (max (w educational) (w corporate)))
      in if maxWeight > 0
         then min (Math_round (js_times (js_divide (of_nat maxWeight) (of_nat (length samples))) 100)) 95
         else 50) \<and>
   (matchCount ergonomia (allContentOf samples) = 5 \<and>
    (\<forall>k\<in>set allKeywords. k \<noteq> ergonomia \<longrightarrow> matchCount k (allContentOf samples) = 0) \<longrightarrow>
      primary (detectContentDomain samples) = prl \<and>
      confidence (detectContentDomain samples) =
        min (Math_round (js_times (js_divide 5 (of_nat (length samples))) 100)) 95)"
proof -
  define w where "w = domainWeight (allContentOf samples)"
  define m where "m = max (w prl) (max (w technical) (max (w educational) (w corporate)))"
  have wm: "w (dominantOf w) = m" unfolding m_def by (rule dominantOf_weight)
  have c: "confidence (detectContentDomain samples) = confidenceOf m (length samples)"
    using wm unfolding confidence_detect w_def by simp
  have pos: "0 < m \<Longrightarrow> length samples \<noteq> 0"
  proof -
    assume "0 < m"
    then have "0 < w (dominantOf w)" using wm by simp
    then have "samples \<noteq> []" unfolding w_def by (rule weight_positive_samples)
    then show ?thesis by simp
  qed
  have f: "confidenceOf m (length samples) =
        (if m > 0
         then min (Math_round (js_times (js_divide (of_nat m) (of_nat (length samples))) 100)) 95
         else 50)"
    using pos by (auto simp: confidenceOf_def)
  have first: "confidence (detectContentDomain samples) =
     (let w = domainWeight (allContentOf samples);
          maxWeight = max (w prl) (max (w technical) (max (w educational) (w corporate)))
      in if maxWeight > 0
         then min (Math_round (js_times (js_divide (of_nat maxWeight) (of_nat (length samples))) 100)) 95
         else 50)"
    using c f unfolding m_def w_def by (simp only: Let_def)
  have second: "primary (detectContentDomain samples) = prl \<and>
      confidence (detectContentDomain samples) =
        min (Math_round (js_times (js_divide 5 (of_nat (length samples))) 100)) 95"
    if a: "matchCount ergonomia (allContentOf samples) = 5"
      and b: "\<forall>k\<in>set allKeywords. k \<noteq> ergonomia \<longrightarrow> matchCount k (allContentOf samples) = 0"
  proof -
    have wd: "w d = (if d = prl then 5 else 0)" for d
      unfolding w_def using a b by (rule ergonomia_weight)
    then have p: "dominantOf w = prl" by (simp add: dominantOf_def)
    have m5: "m = 5" unfolding m_def by (simp add: wd)
    have "primary (detectContentDomain samples) = prl"
      using p unfolding primary_detect w_def by simp
    moreover have "confidence (detectContentDomain samples) =
        min (Math_round (js_times (js_divide 5 (of_nat (length samples))) 100)) 95"
      using c f m5 by simp
    ultimately show ?thesis ..
  qed
  from first second show ?thesis by blast
qed

lemma fiveOfEight_prepared:
  "(let p = prepared True (allContentOf fiveOfEight)
    in list_all (\<lambda>k. countPrepared (map (canonicalize True) k) False p =
                      (if k = ergonomia then 5 else 0)) allKeywords)"
  by code_simp

lemma ergonomia_keyword: "ergonomia \<in> set allKeywords"
  by code_simp

lemma sixty_three: "min (Math_round (js_times (js_divide 5 (of_nat (length fiveOfEight))) 100)) 95 = 63"
  by code_simp

text \<open>
  Eight samples with five occurrences: the quotient 62.5 is rounded up to 63.
\<close>

theorem confidence_formula_witness:
  "matchCount ergonomia (allContentOf fiveOfEight) = 5 \<and>
   list_all (\<lambda>k. k \<noteq> ergonomia \<longrightarrow> matchCount k (allContentOf fiveOfEight) = 0) allKeywords \<and>
   length fiveOfEight = 8 \<and>
   primary (detectContentDomain fiveOfEight) = prl \<and>
   confidence (detectContentDomain fiveOfEight) = 63"
proof -
  have c: "\<forall>k\<in>set allKeywords. matchCount k (allContentOf fiveOfEight) = (if k = ergonomia then 5 else 0)"
    using fiveOfEight_prepared by (simp only: Let_def list_all_iff matchCount_prepared)
  then have h: "matchCount ergonomia (allContentOf fiveOfEight) = 5"
    using ergonomia_keyword by fastforce
  have z: "\<forall>k\<in>set allKeywords. k \<noteq> ergonomia \<longrightarrow> matchCount k (allContentOf fiveOfEight) = 0"
    using c by simp
  from confidence_formula[of fiveOfEight] h z
  have "primary (detectContentDomain fiveOfEight) = prl \<and>
      confidence (detectContentDomain fiveOfEight) =
        min (Math_round (js_times (js_divide 5 (of_nat (length fiveOfEight))) 100)) 95"
    by blast
  then have r: "primary (detectContentDomain fiveOfEight) = prl \<and>
      confidence (detectContentDomain fiveOfEight) = 63"
    by (simp only: sixty_three)
  have "length fiveOfEight = 8" by (simp add: fiveOfEight_def)
  with r h z show ?thesis by (simp only: list_all_iff)
qed

text \<open>
  The rounding of the quotient matters: 23 matches over 40 samples give 57, where the
  exact quotient 57.5 would round to 58.
\<close>

lemma confidence_binary64: "confidenceOf 23 40 = 57 \<and> \<lfloor>(23 / 40 * 100 + 1 / 2 :: rat)\<rfloor> = 58"
  by code_simp

section \<open>The local context block\<close>

lemma regexTests_prepared:
  "map (\<lambda>alts. regexTest alts content) altss =
     (let p = prepared False content in map (\<lambda>alts. testPrepared alts False p) altss)"
  by (simp add: regexTest_prepared Let_def)

lemma tests_scenario:
  "map (\<lambda>alts. regexTest alts (allContentOf scenarioSamples))
     [uiWords, technicalWords, educationalWords, corporateWords] = [True, False, False, False]"
  by (subst regexTests_prepared) code_simp

lemma weights_scenario:
  "map (domainWeight (allContentOf scenarioSamples)) domainKeys = [0, 0, 0, 0]"
  by (subst domainWeights_prepared) code_simp

lemma analysis_scenario:
  "analyzeContentPatterns scenarioSamples =
     \<lparr> analysis_contentType = ascii ''Educational/Training Content'',
       recommendedTone = ascii ''Professional'',
       targetAudience = ascii ''Learners'',
       specialConsiderations = [ascii ''UI elements'', ascii ''interaction clarity''] \<rparr>"
proof -
  have t: "regexTest uiWords (allContentOf scenarioSamples)"
    "\<not> regexTest technicalWords (allContentOf scenarioSamples)"
    "\<not> regexTest educationalWords (allContentOf scenarioSamples)"
    "\<not> regexTest corporateWords (allContentOf scenarioSamples)"
    using tests_scenario by simp_all
  show ?thesis
    unfolding analyzeContentPatterns_def Let_def allContentOf_def[symmetric]
    using t by simp
qed

lemma domain_scenario:
  "primary (detectContentDomain scenarioSamples) = corporate"
proof -
  have "domainWeight (allContentOf scenarioSamples) d = 0" for d
    using domainWeights_by_key[OF weights_scenario] by (cases d) simp_all
  then show ?thesis unfolding primary_detect by (intro dominantOf_zero) simp
qed

lemma scenario_local_context:
  "generateEnhancedLocalContext scenarioSamples [] (ascii ''de'') = scenarioContext"
  unfolding generateEnhancedLocalContext_def Let_def analysis_scenario description_detect domain_scenario
  by code_simp

lemma scenario_includes:
  "includes_js scenarioContext (ascii ''**CONTENT TYPE**'')"
  "includes_js scenarioContext (ascii ''**SPECIAL CONSIDERATIONS**: UI elements,interaction clarity'')"
  "\<not> includes_js scenarioContext (ascii ''**SPECIAL CONSIDERATIONS**: UI elements, interaction clarity'')"
  by code_simp+

lemma generateTranslationContext_local:
  assumes "sampleTexts req = Some xs" and "xs \<noteq> []"
    and "generateContextWithClaude up xs (stringOrDefault (userContext req) [])
           (stringOrDefault (context_targetLang req) (ascii ''es'')) = Inl e"
  shows "\<exists>r. generateTranslationContext up req = Inr r \<and>
             context_translationContext r =
               generateEnhancedLocalContext xs (stringOrDefault (userContext req) [])
                 (stringOrDefault (context_targetLang req) (ascii ''es'')) \<and>
             metadata_generationMethod r =
               (if includes_js (context_translationContext r) (ascii ''**CONTENT TYPE**'')
                then ascii ''claude'' else ascii ''local'')"
  using assms by (simp add: generateTranslationContext_def Let_def)

text \<open>
  Claim C6. For the request of scenario 2 and no remote model, the handler returns the
  block \<open>scenarioContext\<close>. It contains \<open>**CONTENT TYPE**\<close>, and its line of special
  considerations names \<open>UI elements\<close> and \<open>interaction clarity\<close> in the order of their
  detection, but joined by a comma alone: \<open>generateEnhancedLocalContext\<close> puts the array
  itself into the template string, and the conversion of an array to a string joins
  with \<open>,\<close>. The substring of the claim, with a space after the comma as in the format
  that the prompt of the remote path asks for, does not occur in the block.
\<close>

theorem scenario_context_bare_comma:
  "map_sum id context_translationContext
     (generateTranslationContext \<lparr> apiKey = None, reply = Inl (Error ''fetch failed'') \<rparr>
        \<lparr> sampleTexts = Some [ascii ''Click continue to proceed'', ascii ''Click continue to proceed''],
          userContext = None, context_targetLang = Some (ascii ''de''), contentType = None \<rparr>) =
     Inr scenarioContext \<and>
   includes_js scenarioContext (ascii ''**CONTENT TYPE**'') \<and>
   includes_js scenarioContext (ascii ''**SPECIAL CONSIDERATIONS**: UI elements,interaction clarity'') \<and>
   \<not> includes_js scenarioContext (ascii ''**SPECIAL CONSIDERATIONS**: UI elements, interaction clarity'')"
proof -
  have "generateEnhancedLocalContext
          [ascii ''Click continue to proceed'', ascii ''Click continue to proceed''] [] (ascii ''de'') =
        scenarioContext"
    using scenario_local_context by (simp only: scenarioSamples_def)
  then show ?thesis
    using scenario_includes
    by (simp add: generateTranslationContext_def generateContextWithClaude_def apiKeyConfigured_def Let_def)
qed

lemma startsWith_append: "startsWith (m @ rest) m"
  by (induction m) simp_all

lemma includes_js_prefix: "includes_js (m @ rest) m"
proof (cases "m @ rest")
  case Nil
  then show ?thesis by simp
next
  case (Cons c cs)
  have "startsWith (m @ rest) m" by (rule startsWith_append)
  with Cons show ?thesis by simp
qed

lemma trim_keeps_prefix:
  assumes "m \<noteq> []" and "\<not> isWhiteSpace (hd m)" and "\<not> isWhiteSpace (last m)"
  shows "\<exists>rest'. trim (m @ rest) = m @ rest'"
proof -
  have d: "dropWhile isWhiteSpace (m @ rest) = m @ rest"
    using assms(1,2) by (intro dropWhile_id) simp
  have r: "dropWhile isWhiteSpace (rev m) = rev m"
    using assms(1,3) by (intro dropWhile_id) (simp add: hd_rev)
  have "dropWhile isWhiteSpace (rev rest @ rev m) =
          (if \<forall>x\<in>set (rev rest). isWhiteSpace x then dropWhile isWhiteSpace (rev m)
           else dropWhile isWhiteSpace (rev rest) @ rev m)"
    by (simp add: dropWhile_append)
  then have "\<exists>t. dropWhile isWhiteSpace (rev (m @ rest)) = t @ rev m"
    using r by (cases "\<forall>x\<in>set (rev rest). isWhiteSpace x") auto
  then obtain t where "dropWhile isWhiteSpace (rev (m @ rest)) = t @ rev m" ..
  then have "trim (m @ rest) = m @ rev t" unfolding trim_def d by simp
  then show ?thesis ..
qed

lemma marker_ends:
  "ascii ''**CONTENT TYPE**'' \<noteq> [] \<and>
   \<not> isWhiteSpace (hd (ascii ''**CONTENT TYPE**'')) \<and>
   \<not> isWhiteSpace (last (ascii ''**CONTENT TYPE**''))"
  by code_simp

text \<open>The local block begins with the marker, whatever the samples, guidance and language.\<close>

lemma local_context_marker:
  "\<exists>rest. generateEnhancedLocalContext xs uc lang = ascii ''**CONTENT TYPE**'' @ rest"
proof -
  have s: "ascii ''**CONTENT TYPE**: '' = ascii ''**CONTENT TYPE**'' @ ascii '': ''"
    by (simp add: ascii_def)
  have "\<exists>body. generateEnhancedLocalContext xs uc lang = trim (ascii ''**CONTENT TYPE**'' @ body)"
  proof (cases "uc \<noteq> [] \<and> 0 < length (trim uc)")
    case True
    show ?thesis
      unfolding generateEnhancedLocalContext_def Let_def s
      by (simp only: True if_True append_assoc simp_thms) (rule exI, rule refl)
  next
    case False
    show ?thesis
      unfolding generateEnhancedLocalContext_def Let_def s
      by (simp only: False if_False append_assoc simp_thms) (rule exI, rule refl)
  qed
  then obtain body where "generateEnhancedLocalContext xs uc lang = trim (ascii ''**CONTENT TYPE**'' @ body)" ..
  then show ?thesis
    using trim_keeps_prefix[of "ascii ''**CONTENT TYPE**''" body] marker_ends by simp
qed

text \<open>
  Claim C9. For every context request with a non-empty sample list for which the remote
  call fails, the response carries the locally generated block, which begins with
  \<open>**CONTENT TYPE**\<close>, and its \<open>generationMethod\<close> is \<open>claude\<close>, not \<open>local\<close>.
\<close>

theorem local_fallback_tagged_claude:
  assumes "sampleTexts req = Some xs" and "xs \<noteq> []"
    and "generateContextWithClaude up xs (stringOrDefault (userContext req) [])
           (stringOrDefault (context_targetLang req) (ascii ''es'')) = Inl e"
  shows "\<exists>r rest. generateTranslationContext up req = Inr r \<and>
           context_translationContext r =
             generateEnhancedLocalContext xs (stringOrDefault (userContext req) [])
               (stringOrDefault (context_targetLang req) (ascii ''es'')) \<and>
           context_translationContext r = ascii ''**CONTENT TYPE**'' @ rest \<and>
           metadata_generationMethod r = ascii ''claude'' \<and>
           metadata_generationMethod r \<noteq> ascii ''local''"
proof -
  obtain r where r: "generateTranslationContext up req = Inr r"
    and c: "context_translationContext r =
               generateEnhancedLocalContext xs (stringOrDefault (userContext req) [])
                 (stringOrDefault (context_targetLang req) (ascii ''es''))"
    and g: "metadata_generationMethod r =
               (if includes_js (context_translationContext r) (ascii ''**CONTENT TYPE**'')
                then ascii ''claude'' else ascii ''local'')"
    using generateTranslationContext_local[OF assms] by blast
  obtain rest where m: "context_translationContext r = ascii ''**CONTENT TYPE**'' @ rest"
    using local_context_marker c by metis
  then have "includes_js (context_translationContext r) (ascii ''**CONTENT TYPE**'')"
    by (simp only: includes_js_prefix)
  then have "metadata_generationMethod r = ascii ''claude''" using g by simp
  moreover have "ascii ''claude'' \<noteq> ascii ''local''" by (simp add: ascii_def)
  ultimately show ?thesis using r c m by metis
qed

text \<open>
  A request handled without an API key.
\<close>

theorem local_fallback_tagged_claude_witness:
  "\<exists>r. generateTranslationContext \<lparr> apiKey = None, reply = Inr (ascii ''unused'') \<rparr>
          \<lparr> sampleTexts = Some [ascii ''Lesson 1''], userContext = Some (ascii ''formal''),
            context_targetLang = None, contentType = None \<rparr> = Inr r \<and>
        metadata_generationMethod r = ascii ''claude''"
proof -
  let ?up = "\<lparr> apiKey = None, reply = (Inr (ascii ''unused'') :: error + jsstring) \<rparr>"
  let ?req = "\<lparr> sampleTexts = Some [ascii ''Lesson 1''], userContext = Some (ascii ''formal''),
            context_targetLang = None, contentType = None \<rparr>"
  have e: "generateContextWithClaude ?up [ascii ''Lesson 1''] (stringOrDefault (userContext ?req) [])
           (stringOrDefault (context_targetLang ?req) (ascii ''es'')) =
           Inl (Error ''Claude API key not configured'')"
    by (simp add: generateContextWithClaude_def apiKeyConfigured_def)
  have "\<exists>r rest. generateTranslationContext ?up ?req = Inr r \<and>
           context_translationContext r =
             generateEnhancedLocalContext [ascii ''Lesson 1''] (stringOrDefault (userContext ?req) [])
               (stringOrDefault (context_targetLang ?req) (ascii ''es'')) \<and>
           context_translationContext r = ascii ''**CONTENT TYPE**'' @ rest \<and>
           metadata_generationMethod r = ascii ''claude'' \<and>
           metadata_generationMethod r \<noteq> ascii ''local''"
    by (rule local_fallback_tagged_claude[OF _ _ e]) simp_all
  then show ?thesis by blast
qed

end
